theory Spec2Isabelle
  imports Complex_Main
begin

section \<open>The notebook MTL\_Tutorial.ipynb\<close>

text \<open>
  The program is one Jupyter notebook. Its code cells run top to bottom on a kernel whose
  variables persist from cell to cell, so a cell is a function from the kernel state to
  either the exception that stopped it or the next state. An exception stops the run,
  except under the cell magic \<^verbatim>\<open>%%capture\<close>, which runs the statements of its cell
  and discards the exception that stops them. Everything the cells call in
  pandas, numpy, scikit-learn, Keras, transformers and in the helper module
  \<^verbatim>\<open>mtl_helpers\<close> (imported by the notebook, its source not at hand) is a field of
  the record \<open>lib\<close>: the notebook is verified for every behaviour of those calls.
  Floating-point numbers are carried as reals and never computed with.
\<close>

subsection \<open>Exceptions\<close>

datatype error = Exception string

definition bind_r :: "error + 'a \<Rightarrow> ('a \<Rightarrow> error + 'b) \<Rightarrow> error + 'b" where
  "bind_r m f = (case m of Inl e \<Rightarrow> Inl e | Inr x \<Rightarrow> f x)"

subsection \<open>Tabular data\<close>

text \<open>
  A pandas Series is a list of (index label, value); a DataFrame with the columns
  \<^verbatim>\<open>sentence\<close> and \<^verbatim>\<open>label\<close> is a list of rows that carry their index label.
  A missing value (None, NaN) is \<open>None\<close>.
\<close>

type_synonym 'a series = "(nat \<times> 'a) list"

record ('s, 'l) gen_row =
  idx :: nat
  sentence :: 's
  label :: 'l

type_synonym raw_frame = "(string option, int option) gen_row list"
type_synonym frame = "(string, int) gen_row list"

text \<open>A scipy or numpy matrix: its number of columns (\<^verbatim>\<open>shape[1]\<close>) and its rows.\<close>

type_synonym matrix = "nat \<times> real list list"

subsection \<open>Keras models and training calls\<close>

datatype activation = Relu | Softmax

datatype layer =
    Input "nat option"
  | Dense nat activation
  | Dropout real
  | Embedding nat nat "real list list" bool
  | BidirectionalLSTM nat bool real

datatype model =
    Functional "layer list"
  | TFBertForSequenceClassification string "real list"

datatype optimizer = Adam real "real option"

datatype loss = SparseCategoricalCrossentropy bool

datatype dataset =
    Arrays matrix "int series"
  | Sequences "nat list list" "int list"
  | Batches "(nat list \<times> int) list list"

record fit_call =
  fc_model :: model
  fc_optimizer :: optimizer
  fc_loss :: loss
  fc_metrics :: "string list"
  fc_train :: dataset
  fc_validation_data :: "dataset option"
  fc_batch_size :: nat
  fc_epochs :: nat
  fc_device :: "string option"

record epoch_log =
  ep_loss :: real
  ep_accuracy :: real
  ep_val_loss :: real
  ep_val_accuracy :: real

type_synonym history = "epoch_log list"

datatype cell_output = ShowFrame frame | FitProgress fit_call history

subsection \<open>The libraries\<close>

record tfidf_params =
  ngram_range :: "nat \<times> nat"
  strip_accents :: string
  decode_error :: string
  stop_words :: "string list"
  analyzer :: string
  min_df :: nat
  max_df :: real
  dtype :: string

text \<open>A fitted TfidfVectorizer: its vocabulary, one term per feature, with the idf weight.\<close>

type_synonym tfidf_vectorizer = "(string \<times> real) list"

text \<open>
  \<open>read_finphrase\<close>, \<open>create_vectorizer_and_embeddings\<close> and \<open>convert_data\<close> are the
  helpers imported from \<^verbatim>\<open>mtl_helpers\<close>. \<open>random_choice seed n size\<close> is
  \<^verbatim>\<open>RandomState(seed).choice(n, size, replace=False)\<close>. \<open>keras_fit\<close> reads and
  advances the process-wide random generators, which the notebook never seeds: the
  state of those generators is the \<open>entropy\<close> of the kernel.
\<close>

record lib =
  read_finphrase :: "string \<Rightarrow> error + (string option \<times> int option) list"
  random_choice :: "nat \<Rightarrow> nat \<Rightarrow> nat \<Rightarrow> nat list"
  tfidf_fit :: "tfidf_params \<Rightarrow> string list \<Rightarrow> error + tfidf_vectorizer"
  tfidf_value :: "tfidf_vectorizer \<Rightarrow> string \<Rightarrow> nat \<Rightarrow> real"
  f_classif :: "matrix \<Rightarrow> int list \<Rightarrow> nat \<Rightarrow> real"
  create_vectorizer_and_embeddings :: "string series \<Rightarrow> error + (string list \<times> real list list)"
  vectorizer_call :: "string list \<Rightarrow> string list \<Rightarrow> error + nat list list"
  bert_tokenizer_from_pretrained :: "string \<Rightarrow> error + string list"
  convert_data :: "string list \<Rightarrow> string series \<Rightarrow> int series \<Rightarrow> error + (nat list \<times> int) list"
  bert_model_from_pretrained :: "string \<Rightarrow> error + real list"
  keras_fit :: "nat \<Rightarrow> fit_call \<Rightarrow> error + (history \<times> nat)"

subsection \<open>The kernel state\<close>

record selector =
  sel_k :: nat
  n_features_in :: nat
  support :: "nat list"

record nb_state =
  entropy :: nat
  data :: frame
  x_train :: "string series"
  y_train :: "int series"
  x_val :: "string series"
  y_val :: "int series"
  tfvect :: tfidf_vectorizer
  selector :: selector
  x_train_tf :: matrix
  x_val_tf :: matrix
  vectorizer :: "string list"
  embeddings :: "real list list"
  x_train_vectorized :: "nat list list"
  x_val_vectorized :: "nat list list"
  y_train_vectorized :: "int list"
  y_val_vectorized :: "int list"
  bert_tokenizer :: "string list option"
  train_bert :: "(nat list \<times> int) list list option"
  val_bert :: "(nat list \<times> int) list list option"
  model :: model
  displayed :: "cell_output list"

text \<open>
  A fresh kernel binds no variable. The cells run in order, and a cell that raises stops
  the run, so each variable is assigned before it is read and the empty values below are
  never observed. The variables of the captured cell are the exception: the run goes on
  when an assignment of that cell fails, so they are \<open>None\<close> while unassigned and
  reading them then raises NameError.
\<close>

definition init_state :: "nat \<Rightarrow> nb_state" where
  "init_state e =
     \<lparr>entropy = e, data = [], x_train = [], y_train = [], x_val = [], y_val = [],
      tfvect = [], selector = \<lparr>sel_k = 0, n_features_in = 0, support = []\<rparr>,
      x_train_tf = (0, []), x_val_tf = (0, []),
      vectorizer = [], embeddings = [],
      x_train_vectorized = [], x_val_vectorized = [],
      y_train_vectorized = [], y_val_vectorized = [],
      bert_tokenizer = None, train_bert = None, val_bert = None,
      model = Functional [], displayed = []\<rparr>"

type_synonym cell = "lib \<Rightarrow> nb_state \<Rightarrow> error + nb_state"

subsection \<open>pandas operations used by the notebook\<close>

text \<open>\<^verbatim>\<open>pd.DataFrame(rows, columns=['sentence', 'label'])\<close>: a RangeIndex 0, 1, ...\<close>

definition DataFrame :: "(string option \<times> int option) list \<Rightarrow> raw_frame" where
  "DataFrame rows =
     map (\<lambda>(i, (s, l)). \<lparr>idx = i, sentence = s, label = l\<rparr>) (enumerate 0 rows)"

text \<open>\<^verbatim>\<open>dropna()\<close>: the rows without a missing value, under their old index labels.\<close>

definition dropna :: "raw_frame \<Rightarrow> frame" where
  "dropna df =
     concat (map (\<lambda>r. case (sentence r, label r) of
                        (Some s, Some l) \<Rightarrow> [\<lparr>idx = idx r, sentence = s, label = l\<rparr>]
                      | _ \<Rightarrow> []) df)"

text \<open>
  \<^verbatim>\<open>sample(n, random_state=seed)\<close> draws n positions without replacement and takes
  those rows; numpy refuses a sample larger than the population. With \<^verbatim>\<open>frac=1\<close>
  the size is the number of rows. The generator returns positions below the population
  size, so the row read at each position exists.
\<close>

definition pd_sample :: "lib \<Rightarrow> nat \<Rightarrow> nat \<Rightarrow> frame \<Rightarrow> error + frame" where
  "pd_sample lb n random_state df =
     (if length df < n
      then Inl (Exception ''ValueError: Cannot take a larger sample than population'')
      else Inr (map (\<lambda>i. df ! i) (random_choice lb random_state (length df) n)))"

text \<open>\<^verbatim>\<open>reset_index(drop=True)\<close>: the same rows, relabelled 0, 1, ...\<close>

definition reset_index :: "frame \<Rightarrow> frame" where
  "reset_index df = map (\<lambda>(i, r). r\<lparr>idx := i\<rparr>) (enumerate 0 df)"

text \<open>\<^verbatim>\<open>df[a:b]\<close> and \<^verbatim>\<open>df[a:]\<close>: rows by position, clipped to the frame.\<close>

definition slice_rows :: "nat \<Rightarrow> nat option \<Rightarrow> 'a list \<Rightarrow> 'a list" where
  "slice_rows start stop df =
     (case stop of None \<Rightarrow> drop start df | Some e \<Rightarrow> take (e - start) (drop start df))"

text \<open>\<^verbatim>\<open>df['sentence']\<close>, \<^verbatim>\<open>df['label']\<close>: a column with the frame's index.\<close>

definition column :: "(('s, 'l) gen_row \<Rightarrow> 'a) \<Rightarrow> ('s, 'l) gen_row list \<Rightarrow> 'a series" where
  "column f df = map (\<lambda>r. (idx r, f r)) df"

subsection \<open>Setup, preview and split cells\<close>

definition data_path :: string where
  "data_path = ''data/Sentences_66Agree.txt''"

definition setup_cell :: cell where
  "setup_cell lb s =
     bind_r (read_finphrase lb data_path) (\<lambda>rows.
     let d1 = DataFrame rows;
         d2 = dropna d1
     in bind_r (pd_sample lb (length d2) 42 d2) (\<lambda>d3.
        Inr (s\<lparr>data := reset_index d3\<rparr>)))"

definition preview_cell :: cell where
  "preview_cell lb s =
     bind_r (pd_sample lb 6 32 (data s)) (\<lambda>shown.
     Inr (s\<lparr>displayed := displayed s @ [ShowFrame shown]\<rparr>))"

definition train_split_idx :: nat where
  "train_split_idx = 1300"

definition split_cell :: cell where
  "split_cell lb s =
     (let d = filter (\<lambda>r. label r \<noteq> 2) (data s)
      in Inr (s\<lparr>data := d,
                x_train := column sentence (slice_rows 0 (Some train_split_idx) d),
                y_train := column label (slice_rows 0 (Some train_split_idx) d),
                x_val := column sentence (slice_rows train_split_idx None d),
                y_val := column label (slice_rows train_split_idx None d)\<rparr>))"

subsection \<open>Signal 1: the tf-idf multilayer perceptron\<close>

definition TOP_K :: nat where
  "TOP_K = 20000"

text \<open>The dict literal gives \<^verbatim>\<open>'dtype'\<close> twice; the later entry, np.float64, wins.\<close>

definition tfidf_args :: tfidf_params where
  "tfidf_args =
     \<lparr>ngram_range = (1, 2), strip_accents = ''unicode'', decode_error = ''replace'',
      stop_words = [''a'', ''an'', ''the'', ''i''], analyzer = ''word'',
      min_df = 1, max_df = 0.33, dtype = ''float64''\<rparr>"

text \<open>scikit-learn validates every matrix it is given and refuses one without rows.\<close>

definition no_samples :: error where
  "no_samples =
     Exception ''ValueError: Found array with 0 sample(s) while a minimum of 1 is required''"

text \<open>
  \<^verbatim>\<open>tfvect.transform(docs)\<close>: one row per document, one column per vocabulary term;
  the tf-idf weighting refuses a corpus without documents.
\<close>

definition tfidf_transform :: "lib \<Rightarrow> tfidf_vectorizer \<Rightarrow> string list \<Rightarrow> error + matrix" where
  "tfidf_transform lb v docs =
     (if docs = [] then Inl no_samples
      else Inr (length v, map (\<lambda>d. map (tfidf_value lb v d) [0..<length v]) docs))"

text \<open>
  \<^verbatim>\<open>SelectKBest(f_classif, k).fit(X, y)\<close>: scikit-learn refuses a matrix without
  rows and a k above the number of features; otherwise the support is the last k features
  of a stable ascending argsort of the scores, kept in column order.
\<close>

definition select_k_best_fit :: "lib \<Rightarrow> nat \<Rightarrow> matrix \<Rightarrow> int series \<Rightarrow> error + selector" where
  "select_k_best_fit lb k X y =
     (let n = fst X in
      if snd X = [] then Inl no_samples
      else if n < k
      then Inl (Exception ''ValueError: k should be <= n_features'')
      else
        let scores = f_classif lb X (map snd y);
            order = sort_key scores [0..<n];
            best = drop (n - k) order
        in Inr \<lparr>sel_k = k, n_features_in = n,
                support = filter (\<lambda>i. i \<in> set best) [0..<n]\<rparr>)"

text \<open>
  \<^verbatim>\<open>selector.transform(X)\<close>: the support columns of X, which must have rows and the
  fitted width.
\<close>

definition selector_transform :: "selector \<Rightarrow> matrix \<Rightarrow> error + matrix" where
  "selector_transform sel X =
     (if snd X = [] then Inl no_samples
      else if fst X \<noteq> n_features_in sel
      then Inl (Exception ''ValueError: X has a different number of features than the selector'')
      else Inr (length (support sel), map (\<lambda>r. map (\<lambda>i. r ! i) (support sel)) (snd X)))"

text \<open>
  \<^verbatim>\<open>model.fit(...)\<close>: Keras trains, prints one progress line per epoch and returns the
  history; the random generators have advanced.
\<close>

definition fit :: "lib \<Rightarrow> fit_call \<Rightarrow> nb_state \<Rightarrow> error + nb_state" where
  "fit lb c s =
     bind_r (keras_fit lb (entropy s) c) (\<lambda>(h, e).
     Inr (s\<lparr>entropy := e, displayed := displayed s @ [FitProgress c h]\<rparr>))"

definition mlp_encode :: cell where
  "mlp_encode lb s =
     bind_r (tfidf_fit lb tfidf_args (map snd (x_train s))) (\<lambda>v.
     bind_r (tfidf_transform lb v (map snd (x_train s))) (\<lambda>xt.
     bind_r (tfidf_transform lb v (map snd (x_val s))) (\<lambda>xv.
     bind_r (select_k_best_fit lb (min TOP_K (fst xt)) xt (y_train s)) (\<lambda>sel.
     bind_r (selector_transform sel xt) (\<lambda>xt'.
     bind_r (selector_transform sel xv) (\<lambda>xv'.
     Inr (s\<lparr>tfvect := v, selector := sel, x_train_tf := xt', x_val_tf := xv'\<rparr>)))))))"

definition mlp_model :: "nat \<Rightarrow> model" where
  "mlp_model d =
     Functional [Input (Some d), Dense 64 Relu, Dropout 0.4, Dense 64 Relu, Dropout 0.4,
                 Dense 2 Softmax]"

definition mlp_fit_call :: "nb_state \<Rightarrow> fit_call" where
  "mlp_fit_call s =
     \<lparr>fc_model = mlp_model (fst (x_val_tf s)),
      fc_optimizer = Adam 0.001 None,
      fc_loss = SparseCategoricalCrossentropy False,
      fc_metrics = [''accuracy''],
      fc_train = Arrays (x_train_tf s) (y_train s),
      fc_validation_data = Some (Arrays (x_val_tf s) (y_val s)),
      fc_batch_size = 32, fc_epochs = 10, fc_device = None\<rparr>"

definition mlp_cell :: cell where
  "mlp_cell lb s =
     bind_r (mlp_encode lb s) (\<lambda>s1.
     fit lb (mlp_fit_call s1) (s1\<lparr>model := mlp_model (fst (x_val_tf s1))\<rparr>))"

subsection \<open>Signal 1: the GloVe bidirectional LSTM\<close>

definition bilstm_encode :: cell where
  "bilstm_encode lb s =
     bind_r (create_vectorizer_and_embeddings lb (x_train s)) (\<lambda>(v, emb).
     bind_r (vectorizer_call lb v (map snd (x_train s))) (\<lambda>xt.
     bind_r (vectorizer_call lb v (map snd (x_val s))) (\<lambda>xv.
     Inr (s\<lparr>vectorizer := v, embeddings := emb,
             x_train_vectorized := xt, x_val_vectorized := xv,
             y_train_vectorized := map snd (y_train s),
             y_val_vectorized := map snd (y_val s)\<rparr>))))"

definition bilstm_model :: "string list \<Rightarrow> real list list \<Rightarrow> model" where
  "bilstm_model v emb =
     Functional [Input None, Embedding (length v + 2) 100 emb False,
                 BidirectionalLSTM 50 True 0.2, BidirectionalLSTM 50 False 0.2,
                 Dropout 0.2, Dense 2 Softmax]"

definition bilstm_fit_call :: "nb_state \<Rightarrow> fit_call" where
  "bilstm_fit_call s =
     \<lparr>fc_model = bilstm_model (vectorizer s) (embeddings s),
      fc_optimizer = Adam 0.001 None,
      fc_loss = SparseCategoricalCrossentropy False,
      fc_metrics = [''accuracy''],
      fc_train = Sequences (x_train_vectorized s) (y_train_vectorized s),
      fc_validation_data = Some (Sequences (x_val_vectorized s) (y_val_vectorized s)),
      fc_batch_size = 32, fc_epochs = 15, fc_device = Some ''/cpu:0''\<rparr>"

definition bilstm_cell :: cell where
  "bilstm_cell lb s =
     bind_r (bilstm_encode lb s) (\<lambda>s1.
     fit lb (bilstm_fit_call s1)
       (s1\<lparr>model := bilstm_model (vectorizer s1) (embeddings s1)\<rparr>))"

subsection \<open>Signal 2: BERT\<close>

definition BATCH_SIZE :: nat where
  "BATCH_SIZE = 16"

text \<open>\<^verbatim>\<open>dataset.batch(n)\<close>: consecutive groups of n examples, the last one shorter.\<close>

function batch :: "nat \<Rightarrow> 'a list \<Rightarrow> 'a list list" where
  "batch n xs = (if n = 0 \<or> xs = [] then [] else take n xs # batch n (drop n xs))"
  by pat_completeness auto
termination
  by (relation "measure (\<lambda>(n, xs). length xs)") auto

declare batch.simps [simp del]

text \<open>
  The statements of a cell run one after the other; the first one that raises stops the
  cell, and what the earlier ones assigned stays assigned. A body returns the exception
  that stopped it, if any, with the state it reached.
\<close>

type_synonym body = "lib \<Rightarrow> nb_state \<Rightarrow> error option \<times> nb_state"

text \<open>
  \<^verbatim>\<open>%%capture\<close>: IPython runs the body as a cell of its own, with output and traceback
  captured, and ignores how it ended; the captured cell itself never raises.
\<close>

definition capture :: "body \<Rightarrow> cell" where
  "capture b lb s = Inr (snd (b lb s))"

definition bert_tokenize_body :: body where
  "bert_tokenize_body lb s =
     (case bert_tokenizer_from_pretrained lb ''bert-base-cased'' of
        Inl e \<Rightarrow> (Some e, s)
      | Inr tok \<Rightarrow>
          let s1 = s\<lparr>bert_tokenizer := Some tok\<rparr> in
          (case convert_data lb tok (x_train s1) (y_train s1) of
             Inl e \<Rightarrow> (Some e, s1)
           | Inr tr \<Rightarrow>
               let s2 = s1\<lparr>train_bert := Some (batch BATCH_SIZE tr)\<rparr> in
               (case convert_data lb tok (x_val s2) (y_val s2) of
                  Inl e \<Rightarrow> (Some e, s2)
                | Inr va \<Rightarrow> (None, s2\<lparr>val_bert := Some (batch BATCH_SIZE va)\<rparr>))))"

definition bert_tokenize_cell :: cell where
  "bert_tokenize_cell = capture bert_tokenize_body"

definition name_error :: "string \<Rightarrow> error" where
  "name_error v = Exception (''NameError: name '' @ v @ '' is not defined'')"

definition bert_fit_call ::
  "model \<Rightarrow> (nat list \<times> int) list list \<Rightarrow> (nat list \<times> int) list list \<Rightarrow> fit_call" where
  "bert_fit_call m tr va =
     \<lparr>fc_model = m,
      fc_optimizer = Adam 0.00002 (Some 0.00000001),
      fc_loss = SparseCategoricalCrossentropy True,
      fc_metrics = [''accuracy''],
      fc_train = Batches tr,
      fc_validation_data = Some (Batches va),
      fc_batch_size = BATCH_SIZE, fc_epochs = 2, fc_device = None\<rparr>"

text \<open>
  The checkpoint is loaded and the model compiled before the arguments of
  \<^verbatim>\<open>model.fit\<close> are evaluated, \<^verbatim>\<open>train_bert\<close> first.
\<close>

definition bert_cell :: cell where
  "bert_cell lb s =
     bind_r (bert_model_from_pretrained lb ''bert-base-cased'') (\<lambda>w.
     let m = TFBertForSequenceClassification ''bert-base-cased'' w;
         s1 = s\<lparr>model := m\<rparr>
     in case train_bert s1 of
          None \<Rightarrow> Inl (name_error ''train_bert'')
        | Some tr \<Rightarrow>
            (case val_bert s1 of
               None \<Rightarrow> Inl (name_error ''val_bert'')
             | Some va \<Rightarrow> fit lb (bert_fit_call m tr va) s1))"

subsection \<open>Signals 3 to 8 and the whole notebook\<close>

text \<open>The code cells under the headings of signals 3 to 8 have no source.\<close>

definition empty_cell :: cell where
  "empty_cell lb s = Inr s"

fun run_cells :: "lib \<Rightarrow> cell list \<Rightarrow> nb_state \<Rightarrow> error + nb_state" where
  "run_cells lb [] s = Inr s"
| "run_cells lb (c # cs) s = bind_r (c lb s) (run_cells lb cs)"

definition code_cells :: "cell list" where
  "code_cells =
     [setup_cell, preview_cell, split_cell, mlp_cell, bilstm_cell,
      bert_tokenize_cell, bert_cell,
      empty_cell, empty_cell, empty_cell, empty_cell, empty_cell, empty_cell, empty_cell]"

definition run_notebook :: "lib \<Rightarrow> nat \<Rightarrow> error + nb_state" where
  "run_notebook lb e = run_cells lb code_cells (init_state e)"

subsection \<open>The sections of the notebook\<close>

text \<open>
  The supervision signals the notebook announces, with the code cells under each heading:
  "Signal 1" holds the two traditional models, "Signal 2" the two BERT cells, "Signal 6"
  two cells, and a last cell follows "Signal 8+".
\<close>

datatype signal =
    TfidfMLP | GloveBiLSTM | BertFineTuning | ExternalFeatures
  | MultitaskLearning | DatasetSlicing | DataAugmentation | Ensembling

fun section_cells :: "signal \<Rightarrow> cell list" where
  "section_cells TfidfMLP = [mlp_cell]"
| "section_cells GloveBiLSTM = [bilstm_cell]"
| "section_cells BertFineTuning = [bert_tokenize_cell, bert_cell]"
| "section_cells ExternalFeatures = [empty_cell]"
| "section_cells MultitaskLearning = [empty_cell]"
| "section_cells DatasetSlicing = [empty_cell]"
| "section_cells DataAugmentation = [empty_cell, empty_cell]"
| "section_cells Ensembling = [empty_cell]"

subsection \<open>Observations on states and outputs\<close>

text \<open>The training calls among the outputs a run displayed, in order.\<close>

fun fit_calls :: "cell_output list \<Rightarrow> (fit_call \<times> history) list" where
  "fit_calls [] = []"
| "fit_calls (ShowFrame f # os) = fit_calls os"
| "fit_calls (FitProgress c h # os) = (c, h) # fit_calls os"

text \<open>
  The progress a section reports with validation metrics: the training calls that were
  given validation data, among the outputs its cells add to those already displayed.
\<close>

definition validation_reports :: "lib \<Rightarrow> signal \<Rightarrow> nb_state \<Rightarrow> (fit_call \<times> history) list" where
  "validation_reports lb sg s =
     (case run_cells lb (section_cells sg) s of
        Inl e \<Rightarrow> []
      | Inr s' \<Rightarrow>
          filter (\<lambda>(c, h). fc_validation_data c \<noteq> None)
            (fit_calls (drop (length (displayed s)) (displayed s'))))"

definition has_experiment :: "lib \<Rightarrow> signal \<Rightarrow> nb_state \<Rightarrow> bool" where
  "has_experiment lb sg s = (validation_reports lb sg s \<noteq> [])"

text \<open>The last layer of a network built layer by layer in the notebook.\<close>

fun output_layer :: "model \<Rightarrow> layer option" where
  "output_layer (Functional ls) = (if ls = [] then None else Some (last ls))"
| "output_layer (TFBertForSequenceClassification name w) = None"

text \<open>What the data cells leave to the experiments.\<close>

definition split_view ::
  "nb_state \<Rightarrow> frame \<times> string series \<times> int series \<times> string series \<times> int series" where
  "split_view s = (data s, x_train s, y_train s, x_val s, y_val s)"

text \<open>Whether a model is the BERT classifier of the transformers library.\<close>

fun is_bert :: "model \<Rightarrow> bool" where
  "is_bert (TFBertForSequenceClassification name w) = True"
| "is_bert (Functional ls) = False"

subsection \<open>The label encoding\<close>

datatype polarity = Positive | Negative | Neutral

text \<open>The comment of the preview cell: 1 is "positive", 0 is "negative", 2 is "neutral".\<close>

fun polarity_code :: "polarity \<Rightarrow> int" where
  "polarity_code Positive = 1"
| "polarity_code Negative = 0"
| "polarity_code Neutral = 2"

text \<open>
  Modelled from the spec: \<^verbatim>\<open>read_finphrase\<close> of \<^verbatim>\<open>mtl_helpers\<close>, which the
  sources at hand do not contain. The dataset classifies each text into positive, negative
  or neutral polarity; the helper returns, for each annotated sentence of the file, the
  sentence and the code of its polarity.
\<close>

definition read_finphrase_spec :: "(string \<times> polarity) list \<Rightarrow> (string option \<times> int option) list" where
  "read_finphrase_spec annotated = map (\<lambda>(t, p). (Some t, Some (polarity_code p))) annotated"

subsection \<open>Sample libraries and states\<close>

definition demo_rows :: "(string option \<times> int option) list" where
  "demo_rows =
     [(Some ''profit rose'', Some 1), (Some ''loss widened'', Some 0),
      (Some ''office moved'', Some 2), (None, Some 1),
      (Some ''sales grew'', Some 1), (Some ''orders fell'', Some 0),
      (Some ''shares bought'', Some 2), (Some ''margin improved'', Some 1),
      (Some ''costs rose'', Some 0)]"

definition demo_epoch :: epoch_log where
  "demo_epoch = \<lparr>ep_loss = 0, ep_accuracy = 1, ep_val_loss = 0, ep_val_accuracy = 1\<rparr>"

text \<open>A library whose every call succeeds; its generator rotates the positions by the seed.\<close>

definition demo_lib :: lib where
  "demo_lib =
     \<lparr>read_finphrase = (\<lambda>p. if p = data_path then Inr demo_rows
                             else Inl (Exception ''FileNotFoundError'')),
      random_choice = (\<lambda>seed n k. map (\<lambda>i. (i + seed) mod n) [0..<k]),
      tfidf_fit = (\<lambda>args docs. Inr [(''rose'', 1), (''fell'', 1), (''grew'', 1)]),
      tfidf_value = (\<lambda>v d i. 0),
      f_classif = (\<lambda>X y i. 0),
      create_vectorizer_and_embeddings =
        (\<lambda>x. Inr ([''rose'', ''fell''], [[0], [0], [0], [0]])),
      vectorizer_call = (\<lambda>v docs. Inr (map (\<lambda>d. [2, 3]) docs)),
      bert_tokenizer_from_pretrained = (\<lambda>name. Inr [''[CLS]'', ''[SEP]'']),
      convert_data = (\<lambda>tok x y. Inr (map (\<lambda>(i, l). ([101, 102], l)) y)),
      bert_model_from_pretrained = (\<lambda>name. Inr [0]),
      keras_fit = (\<lambda>e c. Inr (replicate (fc_epochs c) demo_epoch, e + 1))\<rparr>"

definition demo_loaded :: frame where
  "demo_loaded =
     [\<lparr>idx = 0, sentence = ''office moved'', label = 2\<rparr>,
      \<lparr>idx = 1, sentence = ''sales grew'', label = 1\<rparr>,
      \<lparr>idx = 2, sentence = ''orders fell'', label = 0\<rparr>,
      \<lparr>idx = 3, sentence = ''shares bought'', label = 2\<rparr>,
      \<lparr>idx = 4, sentence = ''margin improved'', label = 1\<rparr>,
      \<lparr>idx = 5, sentence = ''costs rose'', label = 0\<rparr>,
      \<lparr>idx = 6, sentence = ''profit rose'', label = 1\<rparr>,
      \<lparr>idx = 7, sentence = ''loss widened'', label = 0\<rparr>]"

text \<open>The states of a run with \<open>demo_lib\<close> after the setup, preview and split cells.\<close>

definition demo_setup :: nb_state where
  "demo_setup = (init_state 0)\<lparr>data := demo_loaded\<rparr>"

definition demo_preview :: nb_state where
  "demo_preview = demo_setup\<lparr>displayed := [ShowFrame (take 6 demo_loaded)]\<rparr>"

definition demo_split :: nb_state where
  "demo_split =
     demo_preview
       \<lparr>data := filter (\<lambda>r. label r \<noteq> 2) demo_loaded,
        x_train := [(1, ''sales grew''), (2, ''orders fell''), (4, ''margin improved''),
                    (5, ''costs rose''), (6, ''profit rose''), (7, ''loss widened'')],
        y_train := [(1, 1), (2, 0), (4, 1), (5, 0), (6, 1), (7, 0)],
        x_val := [], y_val := []\<rparr>"

text \<open>An annotated file, and the library that reads it as the model of the helper does.\<close>

definition demo_annotated :: "(string \<times> polarity) list" where
  "demo_annotated =
     [(''profit rose'', Positive), (''loss widened'', Negative), (''office moved'', Neutral)]"

definition spec_lib :: lib where
  "spec_lib = demo_lib\<lparr>read_finphrase := (\<lambda>p. Inr (read_finphrase_spec demo_annotated))\<rparr>"

definition spec_setup :: nb_state where
  "spec_setup =
     (init_state 0)
       \<lparr>data := [\<lparr>idx = 0, sentence = ''profit rose'', label = 1\<rparr>,
                 \<lparr>idx = 1, sentence = ''loss widened'', label = 0\<rparr>,
                 \<lparr>idx = 2, sentence = ''office moved'', label = 2\<rparr>]\<rparr>"

subsection \<open>A corpus with a validation part\<close>

text \<open>The labels of the rows without a missing value, in order.\<close>

definition present_labels :: "(string option \<times> int option) list \<Rightarrow> int list" where
  "present_labels rows =
     concat (map (\<lambda>(t, l). case (t, l) of (Some t', Some l') \<Rightarrow> [l'] | _ \<Rightarrow> []) rows)"

text \<open>
  The nine sample rows 217 times over: 1953 rows, 1736 of them complete, 1302 of these not
  neutral, so that two rows are left for validation.
\<close>

definition corpus_rows :: "(string option \<times> int option) list" where
  "corpus_rows = concat (replicate 217 demo_rows)"

definition corpus_lib :: lib where
  "corpus_lib =
     demo_lib\<lparr>read_finphrase := (\<lambda>p. if p = data_path then Inr corpus_rows
                                           else Inl (Exception ''FileNotFoundError''))\<rparr>"

definition corpus_loaded :: frame where
  "corpus_loaded = reset_index (rotate 42 (dropna (DataFrame corpus_rows)))"

definition corpus_kept :: frame where
  "corpus_kept = filter (\<lambda>r. label r \<noteq> 2) corpus_loaded"

text \<open>The states of a run with \<open>corpus_lib\<close> after each of its cells.\<close>

definition corpus_setup :: nb_state where
  "corpus_setup = (init_state 0)\<lparr>data := corpus_loaded\<rparr>"

definition corpus_preview :: nb_state where
  "corpus_preview =
     corpus_setup
       \<lparr>displayed :=
          [ShowFrame (map (\<lambda>i. corpus_loaded ! i)
                        (random_choice corpus_lib 32 (length corpus_loaded) 6))]\<rparr>"

definition corpus_split :: nb_state where
  "corpus_split =
     corpus_preview
       \<lparr>data := corpus_kept,
        x_train := column sentence (take 1300 corpus_kept),
        y_train := column label (take 1300 corpus_kept),
        x_val := column sentence (drop 1300 corpus_kept),
        y_val := column label (drop 1300 corpus_kept)\<rparr>"

definition corpus_mlp_encoded :: nb_state where
  "corpus_mlp_encoded =
     corpus_split
       \<lparr>tfvect := [(''rose'', 1), (''fell'', 1), (''grew'', 1)],
        selector := \<lparr>sel_k = 3, n_features_in = 3, support = [0, 1, 2]\<rparr>,
        x_train_tf := (3, map (\<lambda>d. [0, 0, 0]) (x_train corpus_split)),
        x_val_tf := (3, map (\<lambda>d. [0, 0, 0]) (x_val corpus_split))\<rparr>"

definition corpus_mlp :: nb_state where
  "corpus_mlp =
     corpus_mlp_encoded
       \<lparr>entropy := 1, model := mlp_model 3,
        displayed := displayed corpus_split
          @ [FitProgress (mlp_fit_call corpus_mlp_encoded) (replicate 10 demo_epoch)]\<rparr>"

definition corpus_bilstm_encoded :: nb_state where
  "corpus_bilstm_encoded =
     corpus_mlp
       \<lparr>vectorizer := [''rose'', ''fell''], embeddings := [[0], [0], [0], [0]],
        x_train_vectorized := map (\<lambda>d. [2, 3]) (x_train corpus_split),
        x_val_vectorized := map (\<lambda>d. [2, 3]) (x_val corpus_split),
        y_train_vectorized := map snd (y_train corpus_split),
        y_val_vectorized := map snd (y_val corpus_split)\<rparr>"

definition corpus_bilstm :: nb_state where
  "corpus_bilstm =
     corpus_bilstm_encoded
       \<lparr>entropy := 2, model := bilstm_model [''rose'', ''fell''] [[0], [0], [0], [0]],
        displayed := displayed corpus_mlp
          @ [FitProgress (bilstm_fit_call corpus_bilstm_encoded) (replicate 15 demo_epoch)]\<rparr>"

definition corpus_train_bert :: "(nat list \<times> int) list list" where
  "corpus_train_bert =
     batch BATCH_SIZE (map (\<lambda>(i, l). ([101, 102], l)) (y_train corpus_split))"

definition corpus_val_bert :: "(nat list \<times> int) list list" where
  "corpus_val_bert =
     batch BATCH_SIZE (map (\<lambda>(i, l). ([101, 102], l)) (y_val corpus_split))"

definition corpus_tokenized :: nb_state where
  "corpus_tokenized =
     corpus_bilstm
       \<lparr>bert_tokenizer := Some [''[CLS]'', ''[SEP]''],
        train_bert := Some corpus_train_bert,
        val_bert := Some corpus_val_bert\<rparr>"

definition demo_bert_model :: model where
  "demo_bert_model = TFBertForSequenceClassification ''bert-base-cased'' [0]"

definition corpus_bert :: nb_state where
  "corpus_bert =
     corpus_tokenized
       \<lparr>entropy := 3, model := demo_bert_model,
        displayed := displayed corpus_bilstm
          @ [FitProgress (bert_fit_call demo_bert_model corpus_train_bert corpus_val_bert)
               (replicate 2 demo_epoch)]\<rparr>"


definition no_tfidf_lib :: lib where
  "no_tfidf_lib = corpus_lib\<lparr>tfidf_fit := (\<lambda>args docs. Inl (Exception ''ValueError''))\<rparr>"




definition no_checkpoint_lib :: lib where
  "no_checkpoint_lib =
     corpus_lib\<lparr>bert_model_from_pretrained := (\<lambda>name. Inl (Exception ''OSError''))\<rparr>"




section \<open>Verification\<close>

subsection \<open>Sequencing\<close>

lemma bind_r_Inl [simp]: "bind_r (Inl e) f = Inl e"
  by (simp add: bind_r_def)

lemma bind_r_Inr [simp]: "bind_r (Inr x) f = f x"
  by (simp add: bind_r_def)

lemma bind_r_eq_Inr: "bind_r m f = Inr y \<longleftrightarrow> (\<exists>x. m = Inr x \<and> f x = Inr y)"
  by (cases m) simp_all

lemma bind_r_eq_Inl: "bind_r m f = Inl e \<longleftrightarrow> m = Inl e \<or> (\<exists>x. m = Inr x \<and> f x = Inl e)"
  by (cases m) simp_all

subsection \<open>The data cells\<close>

lemma idx_reset_index: "map idx (reset_index df) = [0..<length df]"
proof -
  have "map idx (reset_index df) = map fst (enumerate 0 df)"
    by (simp add: reset_index_def case_prod_unfold comp_def)
  then show ?thesis by simp
qed

lemma length_reset_index: "length (reset_index df) = length df"
  by (simp add: reset_index_def)

lemma setup_cell_index:
  assumes "setup_cell lb s = Inr s'"
  shows "map idx (data s') = [0..<length (data s')]"
proof -
  from assms obtain d where "data s' = reset_index d"
    by (auto simp: setup_cell_def Let_def bind_r_eq_Inr)
  then show ?thesis by (simp add: idx_reset_index length_reset_index)
qed

lemma preview_cell_data:
  "preview_cell lb s = Inr s' \<Longrightarrow> data s' = data s"
  by (auto simp: preview_cell_def bind_r_eq_Inr)

lemma column_idx: "map fst (column f df) = map idx df"
  by (simp add: column_def)

text \<open>Under a range index the label of a row is its position.\<close>

lemma range_index_row:
  assumes "map idx d = [0..<length d]" and "r \<in> set d"
  shows "idx r < length d \<and> d ! idx r = r"
proof -
  from assms(2) obtain k where k: "k < length d" "d ! k = r"
    by (auto simp: in_set_conv_nth)
  have "idx (d ! k) = map idx d ! k"
    using k(1) by simp
  also have "\<dots> = k"
    using k(1) by (simp add: assms(1))
  finally show ?thesis using k by simp
qed

lemma split_cell_eq:
  "split_cell lb s = Inr s' \<longleftrightarrow>
     s' = s\<lparr>data := filter (\<lambda>r. label r \<noteq> 2) (data s),
            x_train := column sentence (take 1300 (filter (\<lambda>r. label r \<noteq> 2) (data s))),
            y_train := column label (take 1300 (filter (\<lambda>r. label r \<noteq> 2) (data s))),
            x_val := column sentence (drop 1300 (filter (\<lambda>r. label r \<noteq> 2) (data s))),
            y_val := column label (drop 1300 (filter (\<lambda>r. label r \<noteq> 2) (data s)))\<rparr>"
  by (auto simp: split_cell_def slice_rows_def train_split_idx_def Let_def)

lemma demo_setup_run: "setup_cell demo_lib (init_state 0) = Inr demo_setup"
  by code_simp

lemma demo_preview_run: "preview_cell demo_lib demo_setup = Inr demo_preview"
  by code_simp

lemma demo_split_run: "split_cell demo_lib demo_preview = Inr demo_split"
  by code_simp

text \<open>
  Claim C8. The split is a partition of the filtered frame. After the setup, preview and
  split cells, \<open>data\<close> is the shuffled frame without its rows of label 2; the training
  columns are the sentence and label columns of its rows at positions 0 to 1299 and the
  validation columns those of the rows from position 1300 on; training part followed by
  validation part is every retained row, in order; no index label occurs in both parts;
  and at every position the sentence and the label carry the same index label and are
  the sentence and the label of the row of the shuffled frame at that label.
\<close>

theorem split_is_partition:
  assumes "setup_cell lb s0 = Inr s1"
    and "preview_cell lb s1 = Inr s2"
    and "split_cell lb s2 = Inr s3"
  shows "data s3 = filter (\<lambda>r. label r \<noteq> 2) (data s1)
    \<and> x_train s3 = column sentence (take 1300 (data s3))
    \<and> y_train s3 = column label (take 1300 (data s3))
    \<and> x_val s3 = column sentence (drop 1300 (data s3))
    \<and> y_val s3 = column label (drop 1300 (data s3))
    \<and> x_train s3 @ x_val s3 = column sentence (data s3)
    \<and> y_train s3 @ y_val s3 = column label (data s3)
    \<and> set (map fst (x_train s3)) \<inter> set (map fst (x_val s3)) = {}
    \<and> (\<forall>i < length (x_train s3).
          fst (y_train s3 ! i) = fst (x_train s3 ! i)
        \<and> fst (x_train s3 ! i) < length (data s1)
        \<and> snd (x_train s3 ! i) = sentence (data s1 ! fst (x_train s3 ! i))
        \<and> snd (y_train s3 ! i) = label (data s1 ! fst (x_train s3 ! i)))
    \<and> (\<forall>i < length (x_val s3).
          fst (y_val s3 ! i) = fst (x_val s3 ! i)
        \<and> fst (x_val s3 ! i) < length (data s1)
        \<and> snd (x_val s3 ! i) = sentence (data s1 ! fst (x_val s3 ! i))
        \<and> snd (y_val s3 ! i) = label (data s1 ! fst (x_val s3 ! i)))"
proof -
  let ?d = "filter (\<lambda>r. label r \<noteq> 2) (data s1)"
  have range: "map idx (data s1) = [0..<length (data s1)]"
    using assms(1) by (rule setup_cell_index)
  have s2: "data s2 = data s1"
    using assms(2) by (rule preview_cell_data)
  have "distinct (map idx (data s1))"
    by (simp add: range)
  then have "distinct (map idx ?d)"
    by (simp add: distinct_map_filter)
  then have "distinct (map idx (take 1300 ?d) @ map idx (drop 1300 ?d))"
    unfolding map_append [symmetric] by simp
  then have disj: "set (map idx (take 1300 ?d)) \<inter> set (map idx (drop 1300 ?d)) = {}"
    by simp
  have cat: "column f (take 1300 ?d) @ column f (drop 1300 ?d) = column f ?d"
    for f :: "(string, int) gen_row \<Rightarrow> 'a"
    unfolding column_def map_append [symmetric] by simp
  have row: "idx r < length (data s1) \<and> data s1 ! idx r = r" if "r \<in> set ?d" for r
    using range_index_row [OF range, of r] that by simp
  have tk: "idx (take 1300 ?d ! i) < length (data s1)
      \<and> data s1 ! idx (take 1300 ?d ! i) = take 1300 ?d ! i"
    if "i < length (take 1300 ?d)" for i
  proof -
    have "take 1300 ?d ! i \<in> set (take 1300 ?d)"
      using that by (rule nth_mem)
    then have "take 1300 ?d ! i \<in> set ?d"
      by (rule in_set_takeD)
    then show ?thesis by (rule row)
  qed
  have dr: "idx (drop 1300 ?d ! i) < length (data s1)
      \<and> data s1 ! idx (drop 1300 ?d ! i) = drop 1300 ?d ! i"
    if "i < length (drop 1300 ?d)" for i
  proof -
    have "drop 1300 ?d ! i \<in> set (drop 1300 ?d)"
      using that by (rule nth_mem)
    then have "drop 1300 ?d ! i \<in> set ?d"
      by (rule in_set_dropD)
    then show ?thesis by (rule row)
  qed
  from assms(3) have s3: "s3 = s2\<lparr>data := ?d,
            x_train := column sentence (take 1300 ?d),
            y_train := column label (take 1300 ?d),
            x_val := column sentence (drop 1300 ?d),
            y_val := column label (drop 1300 ?d)\<rparr>"
    by (simp add: split_cell_eq s2)
  have train: "\<forall>i < length (x_train s3).
          fst (y_train s3 ! i) = fst (x_train s3 ! i)
        \<and> fst (x_train s3 ! i) < length (data s1)
        \<and> snd (x_train s3 ! i) = sentence (data s1 ! fst (x_train s3 ! i))
        \<and> snd (y_train s3 ! i) = label (data s1 ! fst (x_train s3 ! i))"
    using tk by (simp add: s3 column_def)
  have val: "\<forall>i < length (x_val s3).
          fst (y_val s3 ! i) = fst (x_val s3 ! i)
        \<and> fst (x_val s3 ! i) < length (data s1)
        \<and> snd (x_val s3 ! i) = sentence (data s1 ! fst (x_val s3 ! i))
        \<and> snd (y_val s3 ! i) = label (data s1 ! fst (x_val s3 ! i))"
    using dr by (simp add: s3 column_def)
  have rest: "data s3 = ?d
    \<and> x_train s3 = column sentence (take 1300 (data s3))
    \<and> y_train s3 = column label (take 1300 (data s3))
    \<and> x_val s3 = column sentence (drop 1300 (data s3))
    \<and> y_val s3 = column label (drop 1300 (data s3))
    \<and> x_train s3 @ x_val s3 = column sentence (data s3)
    \<and> y_train s3 @ y_val s3 = column label (data s3)
    \<and> set (map fst (x_train s3)) \<inter> set (map fst (x_val s3)) = {}"
    using disj cat [of sentence] cat [of label] by (simp add: s3 column_idx)
  from rest train val show ?thesis by blast
qed

theorem split_is_partition_witness:
  "setup_cell demo_lib (init_state 0) = Inr demo_setup
   \<and> preview_cell demo_lib demo_setup = Inr demo_preview
   \<and> split_cell demo_lib demo_preview = Inr demo_split
   \<and> data demo_split = filter (\<lambda>r. label r \<noteq> 2) (data demo_setup)
   \<and> x_train demo_split @ x_val demo_split = column sentence (data demo_split)
   \<and> y_train demo_split @ y_val demo_split = column label (data demo_split)
   \<and> set (map fst (x_train demo_split)) \<inter> set (map fst (x_val demo_split)) = {}"
  using split_is_partition [OF demo_setup_run demo_preview_run demo_split_run]
    demo_setup_run demo_preview_run demo_split_run
  by blast

subsection \<open>Labels after the split\<close>

lemma filter_neutral_labels:
  assumes "label ` set (d :: frame) \<subseteq> {0, 1, 2}"
  shows "label ` set (filter (\<lambda>r. label r \<noteq> 2) d) \<subseteq> {0, 1}"
  using assms by auto

lemma take_labels:
  assumes "label ` set (d :: frame) \<subseteq> {0, 1}"
  shows "label ` set (take n d) \<subseteq> {0, 1}"
  using assms set_take_subset [of n d] by blast

lemma drop_labels:
  assumes "label ` set (d :: frame) \<subseteq> {0, 1}"
  shows "label ` set (drop n d) \<subseteq> {0, 1}"
  using assms set_drop_subset [of n d] by blast

lemma column_label_values: "snd ` set (column label df) = label ` set df"
  by (simp add: column_def image_image)

lemma split_cell_labels:
  assumes "label ` set (data s) \<subseteq> {0, 1, 2}"
    and "split_cell lb s = Inr s'"
  shows "label ` set (data s') \<subseteq> {0, 1}
    \<and> snd ` set (y_train s') \<subseteq> {0, 1}
    \<and> snd ` set (y_val s') \<subseteq> {0, 1}
    \<and> map fst (x_train s') = map fst (y_train s')
    \<and> map fst (x_val s') = map fst (y_val s')"
proof -
  let ?d = "filter (\<lambda>r. label r \<noteq> 2) (data s)"
  have kept: "label ` set ?d \<subseteq> {0, 1}"
    using assms(1) by (rule filter_neutral_labels)
  from assms(2) have s': "s' = s\<lparr>data := ?d,
            x_train := column sentence (take 1300 ?d),
            y_train := column label (take 1300 ?d),
            x_val := column sentence (drop 1300 ?d),
            y_val := column label (drop 1300 ?d)\<rparr>"
    by (simp add: split_cell_eq)
  show ?thesis
    using kept take_labels [OF kept, of 1300] drop_labels [OF kept, of 1300]
    by (simp add: s' column_label_values column_idx)
qed

text \<open>
  Claim C9. The data pipeline is deterministic. The frame and the four columns that the
  setup, preview and split cells produce (or the exception that stops them) are the same
  from any two kernel states, whatever the state of the unseeded random generators: with
  the same file behind \<open>read_finphrase\<close>, the only random step is the shuffle, which draws
  from a generator seeded with 42.
\<close>

theorem data_pipeline_deterministic:
  "map_sum id split_view (run_cells lb [setup_cell, preview_cell, split_cell] s)
   = map_sum id split_view (run_cells lb [setup_cell, preview_cell, split_cell] s')"
  by (simp add: setup_cell_def preview_cell_def split_cell_def split_view_def bind_r_def Let_def
      split: sum.splits)

theorem data_pipeline_deterministic_witness:
  "map_sum id split_view (run_cells demo_lib [setup_cell, preview_cell, split_cell] (init_state 0))
   = map_sum id split_view (run_cells demo_lib [setup_cell, preview_cell, split_cell] (init_state 7))
   \<and> map_sum id split_view (run_cells demo_lib [setup_cell, preview_cell, split_cell] (init_state 0))
     = Inr (split_view demo_split)"
  using data_pipeline_deterministic [of demo_lib "init_state 0" "init_state 7"]
  by (simp add: demo_setup_run demo_preview_run demo_split_run)

subsection \<open>The label codes at load time\<close>

lemma dropna_spec_aux:
  "concat (map (\<lambda>r. case (sentence r, label r) of
                        (Some s, Some l) \<Rightarrow> [\<lparr>idx = idx r, sentence = s, label = l\<rparr>]
                      | _ \<Rightarrow> [])
     (map (\<lambda>(i, (s, l)). \<lparr>idx = i, sentence = s, label = l\<rparr>)
       (enumerate n (map (\<lambda>(t, p). (Some t, Some (polarity_code p))) xs))))
   = map (\<lambda>(i, (t, p)). \<lparr>idx = i, sentence = t, label = polarity_code p\<rparr>) (enumerate n xs)"
  by (induction xs arbitrary: n) (auto split: prod.splits)

lemma dropna_spec:
  "dropna (DataFrame (read_finphrase_spec annotated))
   = map (\<lambda>(i, (t, p)). \<lparr>idx = i, sentence = t, label = polarity_code p\<rparr>)
       (enumerate 0 annotated)"
  unfolding dropna_def DataFrame_def read_finphrase_spec_def by (rule dropna_spec_aux)

lemma dropna_spec_content:
  assumes "r \<in> set (dropna (DataFrame (read_finphrase_spec annotated)))"
  shows "\<exists>p. (sentence r, p) \<in> set annotated \<and> label r = polarity_code p"
proof -
  from assms obtain i t p where "(i, (t, p)) \<in> set (enumerate 0 annotated)"
    and r: "r = \<lparr>idx = i, sentence = t, label = polarity_code p\<rparr>"
    unfolding dropna_spec by auto
  then have "i < length annotated" and "annotated ! i = (t, p)"
    by (auto simp: in_set_enumerate_eq)
  then have "(t, p) \<in> set annotated"
    using nth_mem [of i annotated] by simp
  then show ?thesis using r by auto
qed

lemma reset_index_content:
  assumes "r \<in> set (reset_index d)"
  shows "\<exists>r' \<in> set d. sentence r = sentence r' \<and> label r = label r'"
proof -
  from assms obtain i r' where "(i, r') \<in> set (enumerate 0 d)" and r: "r = r'\<lparr>idx := i\<rparr>"
    unfolding reset_index_def by auto
  then have "r' \<in> set d"
    by (auto simp: in_set_enumerate_eq)
  then show ?thesis using r by auto
qed

lemma polarity_code_cases:
  "(polarity_code p = 1 \<longleftrightarrow> p = Positive) \<and> (polarity_code p = 0 \<longleftrightarrow> p = Negative)
   \<and> (polarity_code p = 2 \<longleftrightarrow> p = Neutral)"
  by (cases p) simp_all

lemma polarity_code_range: "range polarity_code = {0, 1, 2}"
proof
  show "range polarity_code \<subseteq> {0, 1, 2}"
  proof
    fix x assume "x \<in> range polarity_code"
    then obtain p where "x = polarity_code p" by blast
    then show "x \<in> {0, 1, 2}" by (cases p) simp_all
  qed
  have "polarity_code Negative = 0" "polarity_code Positive = 1" "polarity_code Neutral = 2"
    by simp_all
  then show "{0, 1, 2} \<subseteq> range polarity_code"
    by (metis insert_subset empty_subsetI rangeI)
qed

text \<open>
  Claim C6. At load time every label is one of the three codes. When \<open>read_finphrase\<close>
  returns what its model returns for an annotated file, and the seeded generator returns
  positions of the frame, every row that the setup cell leaves in \<open>data\<close> is a sentence
  of the file with the code of its polarity; so every label is 0, 1 or 2, the codes are
  exactly these three, and 1 stands for positive, 0 for negative, 2 for neutral.
\<close>

theorem labels_encode_polarity:
  assumes "read_finphrase lb data_path = Inr (read_finphrase_spec annotated)"
    and "set (random_choice lb 42 (length annotated) (length annotated)) \<subseteq> {..<length annotated}"
    and "setup_cell lb s = Inr s'"
  shows "label ` set (data s') \<subseteq> {0, 1, 2}
     \<and> (\<lambda>r. (sentence r, label r)) ` set (data s')
          \<subseteq> (\<lambda>(t, p). (t, polarity_code p)) ` set annotated
     \<and> range polarity_code = {0, 1, 2}
     \<and> (\<forall>p. (polarity_code p = 1 \<longleftrightarrow> p = Positive) \<and> (polarity_code p = 0 \<longleftrightarrow> p = Negative)
           \<and> (polarity_code p = 2 \<longleftrightarrow> p = Neutral))"
proof -
  let ?d2 = "dropna (DataFrame (read_finphrase_spec annotated))"
  let ?locs = "random_choice lb 42 (length annotated) (length annotated)"
  have len: "length ?d2 = length annotated"
    by (simp add: dropna_spec)
  from assms(1,3) have s': "data s' = reset_index (map (\<lambda>i. ?d2 ! i) ?locs)"
    by (auto simp: setup_cell_def Let_def pd_sample_def len)
  have row: "\<exists>p. (sentence r, p) \<in> set annotated \<and> label r = polarity_code p"
    if "r \<in> set (data s')" for r
  proof -
    from that obtain r' where r': "r' \<in> set (map (\<lambda>i. ?d2 ! i) ?locs)"
      and eq: "sentence r = sentence r'" "label r = label r'"
      unfolding s' using reset_index_content by blast
    from r' obtain i where "i \<in> set ?locs" and "r' = ?d2 ! i"
      by auto
    then have "r' \<in> set ?d2"
      using assms(2) len by (auto simp: subset_iff)
    from dropna_spec_content [OF this] eq show ?thesis by simp
  qed
  have a: "label ` set (data s') \<subseteq> {0, 1, 2}"
  proof
    fix x assume "x \<in> label ` set (data s')"
    then obtain r where "r \<in> set (data s')" and "x = label r" by blast
    with row obtain p where "x = polarity_code p" by blast
    then show "x \<in> {0, 1, 2}" using polarity_code_range by blast
  qed
  have b: "(\<lambda>r. (sentence r, label r)) ` set (data s')
          \<subseteq> (\<lambda>(t, p). (t, polarity_code p)) ` set annotated"
  proof
    fix x assume "x \<in> (\<lambda>r. (sentence r, label r)) ` set (data s')"
    then obtain r where r: "r \<in> set (data s')" and x: "x = (sentence r, label r)" by blast
    from row [OF r] obtain p where "(sentence r, p) \<in> set annotated" "label r = polarity_code p"
      by blast
    then show "x \<in> (\<lambda>(t, p). (t, polarity_code p)) ` set annotated"
      using x by force
  qed
  from a b polarity_code_range polarity_code_cases show ?thesis by blast
qed

lemma spec_setup_run: "setup_cell spec_lib (init_state 0) = Inr spec_setup"
  by code_simp

lemma spec_choice:
  "set (random_choice spec_lib 42 (length demo_annotated) (length demo_annotated))
     \<subseteq> {..<length demo_annotated}"
  by code_simp

theorem labels_encode_polarity_witness:
  "read_finphrase spec_lib data_path = Inr (read_finphrase_spec demo_annotated)
   \<and> set (random_choice spec_lib 42 (length demo_annotated) (length demo_annotated))
        \<subseteq> {..<length demo_annotated}
   \<and> setup_cell spec_lib (init_state 0) = Inr spec_setup
   \<and> label ` set (data spec_setup) \<subseteq> {0, 1, 2}
   \<and> range polarity_code = {0, 1, 2}"
proof -
  have r: "read_finphrase spec_lib data_path = Inr (read_finphrase_spec demo_annotated)"
    by (simp add: spec_lib_def)
  from labels_encode_polarity [OF r spec_choice spec_setup_run] r spec_choice spec_setup_run
  show ?thesis by blast
qed

subsection \<open>The data cells on the corpus\<close>

lemma rotate_by_choice:
  "map (\<lambda>i. d ! i) (map (\<lambda>i. (i + k) mod length d) [0..<length d]) = rotate k d"
proof (rule nth_equalityI)
  show "length (map (\<lambda>i. d ! i) (map (\<lambda>i. (i + k) mod length d) [0..<length d]))
      = length (rotate k d)"
    by simp
next
  fix i
  assume "i < length (map (\<lambda>i. d ! i) (map (\<lambda>i. (i + k) mod length d) [0..<length d]))"
  then have i: "i < length d"
    by simp
  then show "map (\<lambda>i. d ! i) (map (\<lambda>i. (i + k) mod length d) [0..<length d]) ! i
      = rotate k d ! i"
    by (simp add: nth_rotate add.commute)
qed

lemma label_dropna_aux:
  "map label (dropna (map (\<lambda>(i, (s, l)). \<lparr>idx = i, sentence = s, label = l\<rparr>) (enumerate n rows)))
   = present_labels rows"
  by (induction rows arbitrary: n)
    (auto simp: dropna_def present_labels_def split: option.splits)

lemma label_dropna: "map label (dropna (DataFrame rows)) = present_labels rows"
  unfolding DataFrame_def by (rule label_dropna_aux)

lemma label_reset_index: "map label (reset_index d) = map label d"
proof -
  have "map label (reset_index d) = map (label \<circ> snd) (enumerate 0 d)"
    by (simp add: reset_index_def case_prod_unfold comp_def)
  also have "\<dots> = map label (map snd (enumerate 0 d))"
    by (simp only: map_map)
  also have "\<dots> = map label d"
    by (simp only: map_snd_enumerate)
  finally show ?thesis .
qed

lemma length_filter_label:
  "length (filter (\<lambda>r. P (label r)) d) = length (filter P (map label d))"
  by (simp add: filter_map comp_def)

lemma length_filter_rotate: "length (filter P (rotate k ys)) = length (filter P ys)"
proof -
  have split: "length (filter P (take m ys)) + length (filter P (drop m ys))
      = length (filter P ys)" for m
  proof -
    have "length (filter P (take m ys @ drop m ys))
        = length (filter P (take m ys)) + length (filter P (drop m ys))"
      by (simp only: filter_append length_append)
    then show ?thesis by (simp only: append_take_drop_id)
  qed
  show ?thesis
    using split [of "k mod length ys"] by (simp add: rotate_drop_take)
qed

lemma present_labels_replicate:
  "present_labels (concat (replicate k rows)) = concat (replicate k (present_labels rows))"
  by (induction k) (simp_all add: present_labels_def)

lemma filter_concat_replicate:
  "filter P (concat (replicate k ys)) = concat (replicate k (filter P ys))"
  by (induction k) simp_all

lemma length_concat_replicate: "length (concat (replicate k ys)) = k * length ys"
  by (induction k) simp_all

lemma present_labels_demo: "present_labels demo_rows = [1, 0, 2, 1, 0, 2, 1, 0]"
  by code_simp

lemma length_corpus_loaded: "length corpus_loaded = 1736"
proof -
  have "length corpus_loaded = length (map label (dropna (DataFrame corpus_rows)))"
    by (simp add: corpus_loaded_def length_reset_index)
  also have "\<dots> = 217 * length (present_labels demo_rows)"
    unfolding label_dropna corpus_rows_def present_labels_replicate
    by (rule length_concat_replicate)
  finally show ?thesis by (simp add: present_labels_demo)
qed

lemma length_corpus_kept: "length corpus_kept = 1302"
proof -
  have labels: "map label corpus_loaded = rotate 42 (present_labels corpus_rows)"
    by (simp only: corpus_loaded_def label_reset_index rotate_map [symmetric] label_dropna)
  have "length corpus_kept = length (filter (\<lambda>l. l \<noteq> 2) (map label corpus_loaded))"
    unfolding corpus_kept_def by (rule length_filter_label)
  also have "\<dots> = length (filter (\<lambda>l. l \<noteq> 2) (rotate 42 (present_labels corpus_rows)))"
    by (simp only: labels)
  also have "\<dots> = length (filter (\<lambda>l. l \<noteq> 2) (present_labels corpus_rows))"
    by (rule length_filter_rotate)
  also have "\<dots> = 217 * length (filter (\<lambda>l. l \<noteq> 2) (present_labels demo_rows))"
    unfolding corpus_rows_def present_labels_replicate filter_concat_replicate
    by (rule length_concat_replicate)
  finally show ?thesis by (simp add: present_labels_demo)
qed

lemma corpus_split_sizes:
  "length (x_train corpus_split) = 1300 \<and> length (y_train corpus_split) = 1300
   \<and> length (x_val corpus_split) = 2 \<and> length (y_val corpus_split) = 2"
  by (simp add: corpus_split_def column_def length_corpus_kept)

lemma corpus_setup_run:
  assumes "read_finphrase lb data_path = Inr corpus_rows"
    and "random_choice lb = random_choice demo_lib"
  shows "setup_cell lb (init_state 0) = Inr corpus_setup"
proof -
  let ?d = "dropna (DataFrame corpus_rows)"
  have "map (\<lambda>i. ?d ! i) (random_choice lb 42 (length ?d) (length ?d)) = rotate 42 ?d"
    unfolding assms(2) using rotate_by_choice [of ?d 42] by (simp add: demo_lib_def)
  then show ?thesis
    by (simp add: setup_cell_def assms(1) pd_sample_def Let_def corpus_setup_def corpus_loaded_def)
qed

lemma corpus_preview_run:
  assumes "random_choice lb = random_choice demo_lib"
  shows "preview_cell lb corpus_setup = Inr corpus_preview"
  by (simp add: preview_cell_def pd_sample_def corpus_setup_def corpus_preview_def
      length_corpus_loaded assms corpus_lib_def init_state_def)

lemma corpus_split_run: "split_cell lb corpus_preview = Inr corpus_split"
  by (simp add: split_cell_eq corpus_split_def corpus_preview_def corpus_setup_def
      corpus_kept_def)


subsection \<open>The experiment cells\<close>

lemma fit_eq:
  "fit lb c s = Inr s' \<longleftrightarrow>
     (\<exists>h e. keras_fit lb (entropy s) c = Inr (h, e)
        \<and> s' = s\<lparr>entropy := e, displayed := displayed s @ [FitProgress c h]\<rparr>)"
  by (auto simp: fit_def bind_r_eq_Inr)

lemma tfidf_transform_eq:
  "tfidf_transform lb v docs = Inr X \<longleftrightarrow>
     docs \<noteq> [] \<and> X = (length v, map (\<lambda>d. map (tfidf_value lb v d) [0..<length v]) docs)"
  by (auto simp: tfidf_transform_def)

lemma mlp_encode_eq:
  "mlp_encode lb s = Inr s1 \<longleftrightarrow>
     (\<exists>v xt xv sel xt' xv'.
        tfidf_fit lb tfidf_args (map snd (x_train s)) = Inr v
      \<and> tfidf_transform lb v (map snd (x_train s)) = Inr xt
      \<and> tfidf_transform lb v (map snd (x_val s)) = Inr xv
      \<and> select_k_best_fit lb (min TOP_K (fst xt)) xt (y_train s) = Inr sel
      \<and> selector_transform sel xt = Inr xt'
      \<and> selector_transform sel xv = Inr xv'
      \<and> s1 = s\<lparr>tfvect := v, selector := sel, x_train_tf := xt', x_val_tf := xv'\<rparr>)"
  by (simp add: mlp_encode_def bind_r_eq_Inr) blast

lemma mlp_cell_eq:
  "mlp_cell lb s = Inr s' \<longleftrightarrow>
     (\<exists>s1 h e. mlp_encode lb s = Inr s1
        \<and> keras_fit lb (entropy s1) (mlp_fit_call s1) = Inr (h, e)
        \<and> s' = s1\<lparr>model := mlp_model (fst (x_val_tf s1)), entropy := e,
                    displayed := displayed s1 @ [FitProgress (mlp_fit_call s1) h]\<rparr>)"
  by (simp add: mlp_cell_def bind_r_eq_Inr fit_eq)

lemma bilstm_encode_eq:
  "bilstm_encode lb s = Inr s1 \<longleftrightarrow>
     (\<exists>v emb xt xv.
        create_vectorizer_and_embeddings lb (x_train s) = Inr (v, emb)
      \<and> vectorizer_call lb v (map snd (x_train s)) = Inr xt
      \<and> vectorizer_call lb v (map snd (x_val s)) = Inr xv
      \<and> s1 = s\<lparr>vectorizer := v, embeddings := emb,
                 x_train_vectorized := xt, x_val_vectorized := xv,
                 y_train_vectorized := map snd (y_train s),
                 y_val_vectorized := map snd (y_val s)\<rparr>)"
  by (simp add: bilstm_encode_def bind_r_eq_Inr) blast

lemma bilstm_cell_eq:
  "bilstm_cell lb s = Inr s' \<longleftrightarrow>
     (\<exists>s1 h e. bilstm_encode lb s = Inr s1
        \<and> keras_fit lb (entropy s1) (bilstm_fit_call s1) = Inr (h, e)
        \<and> s' = s1\<lparr>model := bilstm_model (vectorizer s1) (embeddings s1), entropy := e,
                    displayed := displayed s1 @ [FitProgress (bilstm_fit_call s1) h]\<rparr>)"
  by (simp add: bilstm_cell_def bind_r_eq_Inr fit_eq)

text \<open>The captured cell always runs through; these are its four ways to end.\<close>

lemma bert_tokenize_cell_cases:
  assumes "bert_tokenize_cell lb s = Inr s'"
  shows "(\<exists>e. bert_tokenizer_from_pretrained lb ''bert-base-cased'' = Inl e \<and> s' = s)
    \<or> (\<exists>tok e. bert_tokenizer_from_pretrained lb ''bert-base-cased'' = Inr tok
          \<and> convert_data lb tok (x_train s) (y_train s) = Inl e
          \<and> s' = s\<lparr>bert_tokenizer := Some tok\<rparr>)
    \<or> (\<exists>tok tr e. bert_tokenizer_from_pretrained lb ''bert-base-cased'' = Inr tok
          \<and> convert_data lb tok (x_train s) (y_train s) = Inr tr
          \<and> convert_data lb tok (x_val s) (y_val s) = Inl e
          \<and> s' = s\<lparr>bert_tokenizer := Some tok, train_bert := Some (batch BATCH_SIZE tr)\<rparr>)
    \<or> (\<exists>tok tr va. bert_tokenizer_from_pretrained lb ''bert-base-cased'' = Inr tok
          \<and> convert_data lb tok (x_train s) (y_train s) = Inr tr
          \<and> convert_data lb tok (x_val s) (y_val s) = Inr va
          \<and> s' = s\<lparr>bert_tokenizer := Some tok, train_bert := Some (batch BATCH_SIZE tr),
                     val_bert := Some (batch BATCH_SIZE va)\<rparr>)"
  using assms
  by (auto simp: bert_tokenize_cell_def capture_def bert_tokenize_body_def Let_def
      split: sum.splits)


lemma bert_cell_eq:
  "bert_cell lb s = Inr s' \<longleftrightarrow>
     (\<exists>w tr va h e.
        bert_model_from_pretrained lb ''bert-base-cased'' = Inr w
      \<and> train_bert s = Some tr \<and> val_bert s = Some va
      \<and> keras_fit lb (entropy s)
           (bert_fit_call (TFBertForSequenceClassification ''bert-base-cased'' w) tr va) = Inr (h, e)
      \<and> s' = s\<lparr>model := TFBertForSequenceClassification ''bert-base-cased'' w, entropy := e,
                 displayed := displayed s
                   @ [FitProgress
                        (bert_fit_call (TFBertForSequenceClassification ''bert-base-cased'' w) tr va)
                        h]\<rparr>)"
proof (cases "train_bert s")
  case None
  then show ?thesis
    by (simp add: bert_cell_def bind_r_eq_Inr Let_def)
next
  case tr: (Some tr)
  show ?thesis
  proof (cases "val_bert s")
    case None
    then show ?thesis
      using tr by (simp add: bert_cell_def bind_r_eq_Inr Let_def)
  next
    case (Some va)
    then show ?thesis
      using tr by (simp add: bert_cell_def bind_r_eq_Inr fit_eq Let_def)
  qed
qed

subsection \<open>Feature selection\<close>

lemma support_length:
  assumes "k \<le> n"
  shows "length (filter (\<lambda>i. i \<in> set (drop (n - k) (sort_key f [0..<n]))) [0..<n]) = k"
proof -
  let ?best = "drop (n - k) (sort_key f [0..<n])"
  have sub: "set ?best \<subseteq> {0..<n}"
    using set_drop_subset [of "n - k" "sort_key f [0..<n]"] by simp
  have "distinct (sort_key f [0..<n])"
    by (simp add: distinct_sort)
  then have dist: "distinct ?best"
    by (rule distinct_drop)
  have len: "length ?best = k"
    using assms by simp
  have "length (filter (\<lambda>i. i \<in> set ?best) [0..<n]) = card ({i. i \<in> set ?best} \<inter> set [0..<n])"
    by (rule distinct_length_filter) simp
  also have "{i. i \<in> set ?best} \<inter> set [0..<n] = set ?best"
    using sub by auto
  also have "card (set ?best) = length ?best"
    using dist by (rule distinct_card)
  finally show ?thesis using len by simp
qed

lemma select_k_best_fit_ok:
  assumes "snd X \<noteq> []" and "k \<le> fst X"
  shows "\<exists>sel. select_k_best_fit lb k X y = Inr sel \<and> sel_k sel = k
           \<and> n_features_in sel = fst X \<and> length (support sel) = k"
  using assms support_length [of k "fst X"]
  by (simp add: select_k_best_fit_def Let_def)

lemma selector_transform_ok:
  assumes "snd X \<noteq> []" and "fst X = n_features_in sel"
  shows "\<exists>X'. selector_transform sel X = Inr X' \<and> fst X' = length (support sel)
           \<and> length (snd X') = length (snd X)
           \<and> (\<forall>r \<in> set (snd X'). length r = length (support sel))"
  using assms by (auto simp: selector_transform_def)

lemma select_top_k_ok:
  assumes "snd X \<noteq> []"
  shows "\<exists>sel. select_k_best_fit lb (min TOP_K (fst X)) X y = Inr sel
      \<and> sel_k sel = min 20000 (fst X) \<and> sel_k sel \<le> fst X
      \<and> n_features_in sel = fst X
      \<and> length (support sel) = sel_k sel"
proof -
  have "min TOP_K (fst X) \<le> fst X"
    by simp
  from select_k_best_fit_ok [OF assms this, of lb y]
  show ?thesis by (auto simp: TOP_K_def)
qed

lemma mlp_encode_after_fit:
  assumes "tfidf_fit lb tfidf_args (map snd (x_train s)) = Inr v"
    and "x_train s \<noteq> []" and "x_val s \<noteq> []"
  shows "\<exists>s1. mlp_encode lb s = Inr s1"
proof -
  let ?xt = "(length v, map (\<lambda>d. map (tfidf_value lb v d) [0..<length v]) (map snd (x_train s)))"
  let ?xv = "(length v, map (\<lambda>d. map (tfidf_value lb v d) [0..<length v]) (map snd (x_val s)))"
  have xt: "tfidf_transform lb v (map snd (x_train s)) = Inr ?xt"
    using assms(2) by (simp add: tfidf_transform_eq)
  have xv: "tfidf_transform lb v (map snd (x_val s)) = Inr ?xv"
    using assms(3) by (simp add: tfidf_transform_eq)
  have rt: "snd ?xt \<noteq> []" and rv: "snd ?xv \<noteq> []"
    using assms(2,3) by simp_all
  obtain sel where sel: "select_k_best_fit lb (min TOP_K (fst ?xt)) ?xt (y_train s) = Inr sel"
    and n: "n_features_in sel = fst ?xt"
    using select_top_k_ok [OF rt, of lb "y_train s"] by blast
  have "fst ?xt = n_features_in sel"
    using n by simp
  with rt obtain xt' where xt': "selector_transform sel ?xt = Inr xt'"
    using selector_transform_ok [of ?xt sel] by blast
  have "fst ?xv = n_features_in sel"
    using n by simp
  with rv obtain xv' where xv': "selector_transform sel ?xv = Inr xv'"
    using selector_transform_ok [of ?xv sel] by blast
  show ?thesis
    using assms(1) xt xv sel xt' xv' unfolding mlp_encode_eq by blast
qed

lemma mlp_encode_shapes:
  assumes "mlp_encode lb s = Inr s1"
  shows "x_train s \<noteq> [] \<and> x_val s \<noteq> []
      \<and> sel_k (selector s1) = min 20000 (length (tfvect s1))
      \<and> sel_k (selector s1) \<le> length (tfvect s1)
      \<and> fst (x_train_tf s1) = sel_k (selector s1)
      \<and> fst (x_val_tf s1) = fst (x_train_tf s1)
      \<and> length (snd (x_train_tf s1)) = length (x_train s)
      \<and> length (snd (x_val_tf s1)) = length (x_val s)
      \<and> (\<forall>r \<in> set (snd (x_train_tf s1)) \<union> set (snd (x_val_tf s1)).
            length r = fst (x_train_tf s1))"
proof -
  from assms obtain v xt xv sel xt' xv' where
    xt: "tfidf_transform lb v (map snd (x_train s)) = Inr xt"
    and xv: "tfidf_transform lb v (map snd (x_val s)) = Inr xv"
    and sel: "select_k_best_fit lb (min TOP_K (fst xt)) xt (y_train s) = Inr sel"
    and xt': "selector_transform sel xt = Inr xt'"
    and xv': "selector_transform sel xv = Inr xv'"
    and s1: "s1 = s\<lparr>tfvect := v, selector := sel, x_train_tf := xt', x_val_tf := xv'\<rparr>"
    unfolding mlp_encode_eq by blast
  from xt have t: "x_train s \<noteq> []" "fst xt = length v" "length (snd xt) = length (x_train s)"
    by (auto simp: tfidf_transform_eq)
  from xv have v: "x_val s \<noteq> []" "fst xv = length v" "length (snd xv) = length (x_val s)"
    by (auto simp: tfidf_transform_eq)
  have rt: "snd xt \<noteq> []" and rv: "snd xv \<noteq> []"
    using t v by auto
  have k: "sel_k sel = min 20000 (length v) \<and> sel_k sel \<le> length v
      \<and> n_features_in sel = length v \<and> length (support sel) = sel_k sel"
    using select_top_k_ok [OF rt, of lb "y_train s"] sel t(2) by auto
  have "fst xt = n_features_in sel"
    using k t(2) by simp
  from selector_transform_ok [OF rt this] xt'
  have a: "fst xt' = length (support sel) \<and> length (snd xt') = length (snd xt)
      \<and> (\<forall>r \<in> set (snd xt'). length r = length (support sel))"
    by auto
  have "fst xv = n_features_in sel"
    using k v(2) by simp
  from selector_transform_ok [OF rv this] xv'
  have b: "fst xv' = length (support sel) \<and> length (snd xv') = length (snd xv)
      \<and> (\<forall>r \<in> set (snd xv'). length r = length (support sel))"
    by auto
  show ?thesis
    using k a b t v by (auto simp: s1)
qed

subsection \<open>The experiment cells on the corpus\<close>

lemma corpus_split_nonempty:
  "x_train corpus_split \<noteq> [] \<and> x_val corpus_split \<noteq> []
   \<and> y_train corpus_split \<noteq> [] \<and> y_val corpus_split \<noteq> []"
  using corpus_split_sizes by (metis length_0_conv zero_neq_numeral)

lemma demo_support:
  "filter (\<lambda>i. i \<in> set (drop (3 - 3) (sort_key (\<lambda>i. 0 :: real) [0..<3]))) [0..<3] = [0, 1, 2]"
  by code_simp

lemma demo_tfidf_row: "map (\<lambda>i. 0 :: real) [0..<3] = [0, 0, 0]"
  by code_simp

lemma demo_tfidf_transform:
  assumes "tfidf_value lb = tfidf_value demo_lib" and "docs \<noteq> []"
  shows "tfidf_transform lb [(''rose'', 1), (''fell'', 1), (''grew'', 1)] docs
      = Inr (3, map (\<lambda>d. [0, 0, 0]) docs)"
  using assms(2) by (simp add: tfidf_transform_def assms(1) demo_lib_def demo_tfidf_row)

lemma demo_select_fit:
  assumes "f_classif lb = f_classif demo_lib" and "rows \<noteq> []"
  shows "select_k_best_fit lb (min TOP_K 3) (3, rows) y
      = Inr \<lparr>sel_k = 3, n_features_in = 3, support = [0, 1, 2]\<rparr>"
  using assms(2) demo_support
  by (simp add: select_k_best_fit_def assms(1) demo_lib_def TOP_K_def Let_def)

lemma demo_selector_transform:
  assumes "xs \<noteq> []"
  shows "selector_transform \<lparr>sel_k = 3, n_features_in = 3, support = [0, 1, 2]\<rparr>
        (3, map (\<lambda>d. [0, 0, 0]) xs) = Inr (3, map (\<lambda>d. [0, 0, 0]) xs)"
  using assms by (simp add: selector_transform_def comp_def)

lemma corpus_mlp_encode_run:
  assumes "tfidf_fit lb = tfidf_fit demo_lib"
    and "tfidf_value lb = tfidf_value demo_lib"
    and "f_classif lb = f_classif demo_lib"
  shows "mlp_encode lb corpus_split = Inr corpus_mlp_encoded"
proof -
  let ?v = "[(''rose'', 1), (''fell'', 1), (''grew'', 1)] :: tfidf_vectorizer"
  let ?dt = "map snd (x_train corpus_split)" and ?dv = "map snd (x_val corpus_split)"
  have t: "?dt \<noteq> []" and v: "?dv \<noteq> []"
    using corpus_split_nonempty by simp_all
  have rows: "map (\<lambda>d. [0 :: real, 0, 0]) ?dt \<noteq> []"
    using t by simp
  have fit: "tfidf_fit lb tfidf_args ?dt = Inr ?v"
    by (simp add: assms(1) demo_lib_def)
  have xt: "tfidf_transform lb ?v ?dt = Inr (3, map (\<lambda>d. [0, 0, 0]) ?dt)"
    using assms(2) t by (rule demo_tfidf_transform)
  have xv: "tfidf_transform lb ?v ?dv = Inr (3, map (\<lambda>d. [0, 0, 0]) ?dv)"
    using assms(2) v by (rule demo_tfidf_transform)
  have sel: "select_k_best_fit lb (min TOP_K (fst (3 :: nat, map (\<lambda>d. [0 :: real, 0, 0]) ?dt)))
        (3, map (\<lambda>d. [0, 0, 0]) ?dt) (y_train corpus_split)
      = Inr \<lparr>sel_k = 3, n_features_in = 3, support = [0, 1, 2]\<rparr>"
    unfolding fst_conv using assms(3) rows by (rule demo_select_fit)
  have xt': "selector_transform \<lparr>sel_k = 3, n_features_in = 3, support = [0, 1, 2]\<rparr>
        (3, map (\<lambda>d. [0, 0, 0]) ?dt) = Inr (3, map (\<lambda>d. [0, 0, 0]) ?dt)"
    using t by (rule demo_selector_transform)
  have xv': "selector_transform \<lparr>sel_k = 3, n_features_in = 3, support = [0, 1, 2]\<rparr>
        (3, map (\<lambda>d. [0, 0, 0]) ?dv) = Inr (3, map (\<lambda>d. [0, 0, 0]) ?dv)"
    using v by (rule demo_selector_transform)
  have "mlp_encode lb corpus_split
      = Inr (corpus_split\<lparr>tfvect := ?v,
               selector := \<lparr>sel_k = 3, n_features_in = 3, support = [0, 1, 2]\<rparr>,
               x_train_tf := (3, map (\<lambda>d. [0, 0, 0]) ?dt),
               x_val_tf := (3, map (\<lambda>d. [0, 0, 0]) ?dv)\<rparr>)"
    unfolding mlp_encode_def fit bind_r_Inr xt xv sel xt' xv' by (rule refl)
  then show ?thesis
    by (simp add: corpus_mlp_encoded_def comp_def)
qed

lemma corpus_mlp_run:
  assumes "tfidf_fit lb = tfidf_fit demo_lib"
    and "tfidf_value lb = tfidf_value demo_lib"
    and "f_classif lb = f_classif demo_lib"
    and "keras_fit lb 0 (mlp_fit_call corpus_mlp_encoded) = Inr (replicate 10 demo_epoch, 1)"
  shows "mlp_cell lb corpus_split = Inr corpus_mlp"
proof -
  have e: "entropy corpus_mlp_encoded = 0"
    by (simp add: corpus_mlp_encoded_def corpus_split_def corpus_preview_def corpus_setup_def
        init_state_def)
  have d: "displayed corpus_mlp_encoded = displayed corpus_split"
    by (simp add: corpus_mlp_encoded_def)
  have x: "fst (x_val_tf corpus_mlp_encoded) = 3"
    by (simp add: corpus_mlp_encoded_def)
  show ?thesis
    unfolding mlp_cell_def corpus_mlp_encode_run [OF assms(1-3)]
    by (simp add: fit_def e d x assms(4) corpus_mlp_def)
qed

lemma corpus_bilstm_encode_run:
  assumes "create_vectorizer_and_embeddings lb = create_vectorizer_and_embeddings demo_lib"
    and "vectorizer_call lb = vectorizer_call demo_lib"
  shows "bilstm_encode lb corpus_mlp = Inr corpus_bilstm_encoded"
proof -
  have frame: "x_train corpus_mlp = x_train corpus_split" "x_val corpus_mlp = x_val corpus_split"
    "y_train corpus_mlp = y_train corpus_split" "y_val corpus_mlp = y_val corpus_split"
    by (simp_all add: corpus_mlp_def corpus_mlp_encoded_def)
  show ?thesis
    by (simp add: bilstm_encode_def assms demo_lib_def frame corpus_bilstm_encoded_def comp_def)
qed

lemma corpus_bilstm_run:
  assumes "create_vectorizer_and_embeddings lb = create_vectorizer_and_embeddings demo_lib"
    and "vectorizer_call lb = vectorizer_call demo_lib"
    and "keras_fit lb 1 (bilstm_fit_call corpus_bilstm_encoded) = Inr (replicate 15 demo_epoch, 2)"
  shows "bilstm_cell lb corpus_mlp = Inr corpus_bilstm"
proof -
  have e: "entropy corpus_bilstm_encoded = 1"
    by (simp add: corpus_bilstm_encoded_def corpus_mlp_def)
  have d: "displayed corpus_bilstm_encoded = displayed corpus_mlp"
    by (simp add: corpus_bilstm_encoded_def)
  have v: "vectorizer corpus_bilstm_encoded = [''rose'', ''fell'']"
    "embeddings corpus_bilstm_encoded = [[0], [0], [0], [0]]"
    by (simp_all add: corpus_bilstm_encoded_def)
  show ?thesis
    unfolding bilstm_cell_def corpus_bilstm_encode_run [OF assms(1,2)]
    using assms(3) by (simp add: fit_def e d v corpus_bilstm_def)
qed

lemma corpus_bilstm_frame:
  "x_train corpus_bilstm = x_train corpus_split \<and> x_val corpus_bilstm = x_val corpus_split
   \<and> y_train corpus_bilstm = y_train corpus_split \<and> y_val corpus_bilstm = y_val corpus_split
   \<and> train_bert corpus_bilstm = None \<and> val_bert corpus_bilstm = None
   \<and> bert_tokenizer corpus_bilstm = None \<and> entropy corpus_bilstm = 2"
  by (simp add: corpus_bilstm_def corpus_bilstm_encoded_def corpus_mlp_def corpus_mlp_encoded_def
      corpus_split_def corpus_preview_def corpus_setup_def init_state_def)

lemma corpus_tokenize_run:
  assumes "bert_tokenizer_from_pretrained lb = bert_tokenizer_from_pretrained demo_lib"
    and "convert_data lb = convert_data demo_lib"
  shows "bert_tokenize_cell lb corpus_bilstm = Inr corpus_tokenized"
  by (simp add: bert_tokenize_cell_def capture_def bert_tokenize_body_def assms demo_lib_def
      Let_def corpus_bilstm_frame corpus_tokenized_def corpus_train_bert_def corpus_val_bert_def)

lemma corpus_bert_run:
  assumes "bert_model_from_pretrained lb = bert_model_from_pretrained demo_lib"
    and "keras_fit lb 2 (bert_fit_call demo_bert_model corpus_train_bert corpus_val_bert)
      = Inr (replicate 2 demo_epoch, 3)"
  shows "bert_cell lb corpus_tokenized = Inr corpus_bert"
proof -
  have e: "entropy corpus_tokenized = 2"
    by (simp add: corpus_tokenized_def corpus_bilstm_frame)
  have d: "displayed corpus_tokenized = displayed corpus_bilstm"
    by (simp add: corpus_tokenized_def)
  have b: "train_bert corpus_tokenized = Some corpus_train_bert"
    "val_bert corpus_tokenized = Some corpus_val_bert"
    by (simp_all add: corpus_tokenized_def)
  show ?thesis
    using assms(2)
    by (simp add: bert_cell_def assms(1) demo_lib_def Let_def b fit_def e d corpus_bert_def
        demo_bert_model_def)
qed

lemma corpus_lib_fits:
  "keras_fit corpus_lib 0 (mlp_fit_call corpus_mlp_encoded) = Inr (replicate 10 demo_epoch, 1)"
  "keras_fit corpus_lib 1 (bilstm_fit_call corpus_bilstm_encoded) = Inr (replicate 15 demo_epoch, 2)"
  "keras_fit corpus_lib 2 (bert_fit_call demo_bert_model corpus_train_bert corpus_val_bert)
     = Inr (replicate 2 demo_epoch, 3)"
  by (simp_all add: corpus_lib_def demo_lib_def mlp_fit_call_def bilstm_fit_call_def
      bert_fit_call_def)

lemma corpus_notebook_run: "run_notebook corpus_lib 0 = Inr corpus_bert"
proof -
  have r: "read_finphrase corpus_lib data_path = Inr corpus_rows"
    by (simp add: corpus_lib_def)
  have same: "random_choice corpus_lib = random_choice demo_lib"
    "tfidf_fit corpus_lib = tfidf_fit demo_lib"
    "tfidf_value corpus_lib = tfidf_value demo_lib"
    "f_classif corpus_lib = f_classif demo_lib"
    "create_vectorizer_and_embeddings corpus_lib = create_vectorizer_and_embeddings demo_lib"
    "vectorizer_call corpus_lib = vectorizer_call demo_lib"
    "bert_tokenizer_from_pretrained corpus_lib = bert_tokenizer_from_pretrained demo_lib"
    "convert_data corpus_lib = convert_data demo_lib"
    "bert_model_from_pretrained corpus_lib = bert_model_from_pretrained demo_lib"
    by (simp_all add: corpus_lib_def)
  show ?thesis
    by (simp add: run_notebook_def code_cells_def empty_cell_def
        corpus_setup_run [OF r same(1)] corpus_preview_run [OF same(1)] corpus_split_run
        corpus_mlp_run [OF same(2,3,4) corpus_lib_fits(1)]
        corpus_bilstm_run [OF same(5,6) corpus_lib_fits(2)]
        corpus_tokenize_run [OF same(7,8)]
        corpus_bert_run [OF same(9) corpus_lib_fits(3)])
qed

subsection \<open>What each experiment cell does to the kernel\<close>


lemma mlp_cell_effect:
  assumes "mlp_cell lb s = Inr s'"
  shows "\<exists>c h Xt Xv.
        keras_fit lb (entropy s) c = Inr (h, entropy s')
      \<and> displayed s' = displayed s @ [FitProgress c h]
      \<and> fc_model c = mlp_model (fst (x_train_tf s')) \<and> model s' = fc_model c
      \<and> fc_batch_size c = 32 \<and> fc_epochs c = 10 \<and> fc_optimizer c = Adam 0.001 None
      \<and> fc_loss c = SparseCategoricalCrossentropy False \<and> fc_metrics c = [''accuracy'']
      \<and> fc_device c = None
      \<and> fc_train c = Arrays (x_train_tf s') (y_train s)
      \<and> fc_validation_data c = Some (Arrays (x_val_tf s') (y_val s))
      \<and> tfidf_fit lb tfidf_args (map snd (x_train s)) = Inr (tfvect s')
      \<and> tfidf_transform lb (tfvect s') (map snd (x_train s)) = Inr Xt
      \<and> select_k_best_fit lb (min TOP_K (fst Xt)) Xt (y_train s) = Inr (selector s')
      \<and> selector_transform (selector s') Xt = Inr (x_train_tf s')
      \<and> tfidf_transform lb (tfvect s') (map snd (x_val s)) = Inr Xv
      \<and> selector_transform (selector s') Xv = Inr (x_val_tf s')
      \<and> fst (x_val_tf s') = fst (x_train_tf s')
      \<and> length (snd (x_train_tf s')) = length (x_train s)
      \<and> length (snd (x_val_tf s')) = length (x_val s)
      \<and> x_train s \<noteq> [] \<and> x_val s \<noteq> []
      \<and> data s' = data s \<and> x_train s' = x_train s \<and> y_train s' = y_train s
      \<and> x_val s' = x_val s \<and> y_val s' = y_val s
      \<and> bert_tokenizer s' = bert_tokenizer s \<and> train_bert s' = train_bert s
      \<and> val_bert s' = val_bert s"
proof -
  from assms obtain s1 h e where enc: "mlp_encode lb s = Inr s1"
    and fit: "keras_fit lb (entropy s1) (mlp_fit_call s1) = Inr (h, e)"
    and s': "s' = s1\<lparr>model := mlp_model (fst (x_val_tf s1)), entropy := e,
                    displayed := displayed s1 @ [FitProgress (mlp_fit_call s1) h]\<rparr>"
    unfolding mlp_cell_eq by blast
  from enc obtain v xt xv sel xt' xv' where
    enc_facts: "tfidf_fit lb tfidf_args (map snd (x_train s)) = Inr v"
      "tfidf_transform lb v (map snd (x_train s)) = Inr xt"
      "tfidf_transform lb v (map snd (x_val s)) = Inr xv"
      "select_k_best_fit lb (min TOP_K (fst xt)) xt (y_train s) = Inr sel"
      "selector_transform sel xt = Inr xt'"
      "selector_transform sel xv = Inr xv'"
    and s1: "s1 = s\<lparr>tfvect := v, selector := sel, x_train_tf := xt', x_val_tf := xv'\<rparr>"
    unfolding mlp_encode_eq by blast
  from mlp_encode_shapes [OF enc]
  have shapes: "x_train s \<noteq> []" "x_val s \<noteq> []" "fst xv' = fst xt'"
    "length (snd xt') = length (x_train s)" "length (snd xv') = length (x_val s)"
    by (simp_all add: s1)
  show ?thesis
    using fit enc_facts shapes
    by (intro exI [of _ "mlp_fit_call s1"] exI [of _ h] exI [of _ xt] exI [of _ xv])
      (simp add: s' s1 mlp_fit_call_def)
qed

lemma bilstm_cell_effect:
  assumes "bilstm_cell lb s = Inr s'"
  shows "\<exists>c h. keras_fit lb (entropy s) c = Inr (h, entropy s')
      \<and> displayed s' = displayed s @ [FitProgress c h]
      \<and> fc_model c = bilstm_model (vectorizer s') (embeddings s') \<and> model s' = fc_model c
      \<and> fc_batch_size c = 32 \<and> fc_epochs c = 15 \<and> fc_optimizer c = Adam 0.001 None
      \<and> fc_loss c = SparseCategoricalCrossentropy False \<and> fc_metrics c = [''accuracy'']
      \<and> fc_device c = Some ''/cpu:0''
      \<and> fc_train c = Sequences (x_train_vectorized s') (y_train_vectorized s')
      \<and> fc_validation_data c = Some (Sequences (x_val_vectorized s') (y_val_vectorized s'))
      \<and> create_vectorizer_and_embeddings lb (x_train s) = Inr (vectorizer s', embeddings s')
      \<and> vectorizer_call lb (vectorizer s') (map snd (x_train s)) = Inr (x_train_vectorized s')
      \<and> vectorizer_call lb (vectorizer s') (map snd (x_val s)) = Inr (x_val_vectorized s')
      \<and> y_train_vectorized s' = map snd (y_train s)
      \<and> y_val_vectorized s' = map snd (y_val s)
      \<and> data s' = data s \<and> x_train s' = x_train s \<and> y_train s' = y_train s
      \<and> x_val s' = x_val s \<and> y_val s' = y_val s
      \<and> tfvect s' = tfvect s \<and> selector s' = selector s
      \<and> x_train_tf s' = x_train_tf s \<and> x_val_tf s' = x_val_tf s
      \<and> bert_tokenizer s' = bert_tokenizer s \<and> train_bert s' = train_bert s
      \<and> val_bert s' = val_bert s"
proof -
  from assms obtain s1 h e where enc: "bilstm_encode lb s = Inr s1"
    and fit: "keras_fit lb (entropy s1) (bilstm_fit_call s1) = Inr (h, e)"
    and s': "s' = s1\<lparr>model := bilstm_model (vectorizer s1) (embeddings s1), entropy := e,
                    displayed := displayed s1 @ [FitProgress (bilstm_fit_call s1) h]\<rparr>"
    unfolding bilstm_cell_eq by blast
  from enc obtain v emb xt xv where
    enc_facts: "create_vectorizer_and_embeddings lb (x_train s) = Inr (v, emb)"
      "vectorizer_call lb v (map snd (x_train s)) = Inr xt"
      "vectorizer_call lb v (map snd (x_val s)) = Inr xv"
    and s1: "s1 = s\<lparr>vectorizer := v, embeddings := emb,
                 x_train_vectorized := xt, x_val_vectorized := xv,
                 y_train_vectorized := map snd (y_train s),
                 y_val_vectorized := map snd (y_val s)\<rparr>"
    unfolding bilstm_encode_eq by blast
  show ?thesis
    using fit enc_facts
    by (intro exI [of _ "bilstm_fit_call s1"] exI [of _ h]) (simp add: s' s1 bilstm_fit_call_def)
qed

lemma bert_tokenize_cell_frame:
  assumes "bert_tokenize_cell lb s = Inr s'"
  shows "entropy s' = entropy s \<and> displayed s' = displayed s \<and> model s' = model s
      \<and> data s' = data s \<and> x_train s' = x_train s \<and> y_train s' = y_train s
      \<and> x_val s' = x_val s \<and> y_val s' = y_val s
      \<and> tfvect s' = tfvect s \<and> selector s' = selector s
      \<and> x_train_tf s' = x_train_tf s \<and> x_val_tf s' = x_val_tf s
      \<and> vectorizer s' = vectorizer s \<and> embeddings s' = embeddings s
      \<and> x_train_vectorized s' = x_train_vectorized s
      \<and> x_val_vectorized s' = x_val_vectorized s
      \<and> y_train_vectorized s' = y_train_vectorized s
      \<and> y_val_vectorized s' = y_val_vectorized s"
  using bert_tokenize_cell_cases [OF assms] by auto

text \<open>
  When the validation batches were unassigned before the captured cell and are assigned
  after it, every statement of the cell has run.
\<close>

lemma bert_tokenize_cell_assigned:
  assumes "bert_tokenize_cell lb s = Inr s'"
    and "val_bert s = None" and "val_bert s' = Some vb"
  shows "\<exists>tok tr va. bert_tokenizer_from_pretrained lb ''bert-base-cased'' = Inr tok
      \<and> convert_data lb tok (x_train s) (y_train s) = Inr tr
      \<and> convert_data lb tok (x_val s) (y_val s) = Inr va
      \<and> bert_tokenizer s' = Some tok
      \<and> train_bert s' = Some (batch BATCH_SIZE tr)
      \<and> val_bert s' = Some (batch BATCH_SIZE va) \<and> vb = batch BATCH_SIZE va"
  using bert_tokenize_cell_cases [OF assms(1)] assms(2,3) by auto

lemma bert_cell_effect:
  assumes "bert_cell lb s = Inr s'"
  shows "\<exists>c h w tr va. bert_model_from_pretrained lb ''bert-base-cased'' = Inr w
      \<and> train_bert s = Some tr \<and> val_bert s = Some va
      \<and> keras_fit lb (entropy s) c = Inr (h, entropy s')
      \<and> displayed s' = displayed s @ [FitProgress c h]
      \<and> fc_model c = TFBertForSequenceClassification ''bert-base-cased'' w
      \<and> model s' = fc_model c
      \<and> fc_batch_size c = 16 \<and> fc_epochs c = 2
      \<and> fc_optimizer c = Adam 0.00002 (Some 0.00000001)
      \<and> fc_loss c = SparseCategoricalCrossentropy True \<and> fc_metrics c = [''accuracy'']
      \<and> fc_device c = None
      \<and> fc_train c = Batches tr
      \<and> fc_validation_data c = Some (Batches va)
      \<and> data s' = data s \<and> x_train s' = x_train s \<and> y_train s' = y_train s
      \<and> x_val s' = x_val s \<and> y_val s' = y_val s
      \<and> tfvect s' = tfvect s \<and> selector s' = selector s
      \<and> x_train_tf s' = x_train_tf s \<and> x_val_tf s' = x_val_tf s
      \<and> vectorizer s' = vectorizer s \<and> embeddings s' = embeddings s
      \<and> x_train_vectorized s' = x_train_vectorized s
      \<and> x_val_vectorized s' = x_val_vectorized s
      \<and> y_train_vectorized s' = y_train_vectorized s
      \<and> y_val_vectorized s' = y_val_vectorized s
      \<and> bert_tokenizer s' = bert_tokenizer s \<and> train_bert s' = train_bert s
      \<and> val_bert s' = val_bert s"
proof -
  from assms obtain w tr va h e where
    w: "bert_model_from_pretrained lb ''bert-base-cased'' = Inr w"
    and b: "train_bert s = Some tr" "val_bert s = Some va"
    and fit: "keras_fit lb (entropy s)
           (bert_fit_call (TFBertForSequenceClassification ''bert-base-cased'' w) tr va) = Inr (h, e)"
    and s': "s' = s\<lparr>model := TFBertForSequenceClassification ''bert-base-cased'' w, entropy := e,
                 displayed := displayed s
                   @ [FitProgress
                        (bert_fit_call (TFBertForSequenceClassification ''bert-base-cased'' w) tr va)
                        h]\<rparr>"
    unfolding bert_cell_eq by blast
  show ?thesis
    using w b fit
    by (intro exI [of _ "bert_fit_call (TFBertForSequenceClassification ''bert-base-cased'' w) tr va"]
        exI [of _ h] exI [of _ w] exI [of _ tr] exI [of _ va])
      (simp add: s' bert_fit_call_def BATCH_SIZE_def)
qed

lemma data_cells_effect:
  assumes "run_cells lb [setup_cell, preview_cell, split_cell] s = Inr s'"
  shows "entropy s' = entropy s \<and> (\<exists>f. displayed s' = displayed s @ [ShowFrame f])
      \<and> bert_tokenizer s' = bert_tokenizer s \<and> train_bert s' = train_bert s
      \<and> val_bert s' = val_bert s"
  using assms
  by (auto simp: bind_r_eq_Inr setup_cell_def preview_cell_def split_cell_eq Let_def)

lemma notebook_run:
  "run_notebook lb e = Inr s' \<longleftrightarrow>
     (\<exists>s0 s1 s2 s3. run_cells lb [setup_cell, preview_cell, split_cell] (init_state e) = Inr s0
        \<and> mlp_cell lb s0 = Inr s1 \<and> bilstm_cell lb s1 = Inr s2
        \<and> bert_tokenize_cell lb s2 = Inr s3 \<and> bert_cell lb s3 = Inr s')"
  by (simp add: run_notebook_def code_cells_def bind_r_eq_Inr empty_cell_def) blast

subsection \<open>A whole run\<close>

text \<open>A run of the whole notebook from a fresh kernel, taken apart.\<close>

lemma notebook_run_effect:
  assumes "run_notebook lb e = Inr s'"
  shows "\<exists>s0 f c1 h1 c2 h2 c3 h3 e1 e2 Xt Xv w tok tr va.
      run_cells lb [setup_cell, preview_cell, split_cell] (init_state e) = Inr s0
    \<and> data s' = data s0 \<and> x_train s' = x_train s0 \<and> y_train s' = y_train s0
    \<and> x_val s' = x_val s0 \<and> y_val s' = y_val s0
    \<and> x_train s0 \<noteq> [] \<and> x_val s0 \<noteq> []
    \<and> displayed s' = [ShowFrame f, FitProgress c1 h1, FitProgress c2 h2, FitProgress c3 h3]
    \<and> keras_fit lb e c1 = Inr (h1, e1) \<and> keras_fit lb e1 c2 = Inr (h2, e2)
    \<and> keras_fit lb e2 c3 = Inr (h3, entropy s')
    \<and> fc_model c1 = mlp_model (fst (x_train_tf s'))
    \<and> fc_batch_size c1 = 32 \<and> fc_epochs c1 = 10 \<and> fc_optimizer c1 = Adam 0.001 None
    \<and> fc_loss c1 = SparseCategoricalCrossentropy False \<and> fc_metrics c1 = [''accuracy'']
    \<and> fc_device c1 = None
    \<and> fc_train c1 = Arrays (x_train_tf s') (y_train s0)
    \<and> fc_validation_data c1 = Some (Arrays (x_val_tf s') (y_val s0))
    \<and> tfidf_fit lb tfidf_args (map snd (x_train s0)) = Inr (tfvect s')
    \<and> tfidf_transform lb (tfvect s') (map snd (x_train s0)) = Inr Xt
    \<and> select_k_best_fit lb (min TOP_K (fst Xt)) Xt (y_train s0) = Inr (selector s')
    \<and> selector_transform (selector s') Xt = Inr (x_train_tf s')
    \<and> tfidf_transform lb (tfvect s') (map snd (x_val s0)) = Inr Xv
    \<and> selector_transform (selector s') Xv = Inr (x_val_tf s')
    \<and> fst (x_val_tf s') = fst (x_train_tf s')
    \<and> length (snd (x_train_tf s')) = length (x_train s0)
    \<and> length (snd (x_val_tf s')) = length (x_val s0)
    \<and> fc_model c2 = bilstm_model (vectorizer s') (embeddings s')
    \<and> fc_batch_size c2 = 32 \<and> fc_epochs c2 = 15 \<and> fc_optimizer c2 = Adam 0.001 None
    \<and> fc_loss c2 = SparseCategoricalCrossentropy False \<and> fc_metrics c2 = [''accuracy'']
    \<and> fc_device c2 = Some ''/cpu:0''
    \<and> fc_train c2 = Sequences (x_train_vectorized s') (y_train_vectorized s')
    \<and> fc_validation_data c2 = Some (Sequences (x_val_vectorized s') (y_val_vectorized s'))
    \<and> create_vectorizer_and_embeddings lb (x_train s0) = Inr (vectorizer s', embeddings s')
    \<and> vectorizer_call lb (vectorizer s') (map snd (x_train s0)) = Inr (x_train_vectorized s')
    \<and> vectorizer_call lb (vectorizer s') (map snd (x_val s0)) = Inr (x_val_vectorized s')
    \<and> y_train_vectorized s' = map snd (y_train s0)
    \<and> y_val_vectorized s' = map snd (y_val s0)
    \<and> bert_model_from_pretrained lb ''bert-base-cased'' = Inr w
    \<and> fc_model c3 = TFBertForSequenceClassification ''bert-base-cased'' w
    \<and> model s' = fc_model c3
    \<and> fc_batch_size c3 = 16 \<and> fc_epochs c3 = 2
    \<and> fc_optimizer c3 = Adam 0.00002 (Some 0.00000001)
    \<and> fc_loss c3 = SparseCategoricalCrossentropy True \<and> fc_metrics c3 = [''accuracy'']
    \<and> fc_device c3 = None
    \<and> fc_train c3 = Batches (batch BATCH_SIZE tr)
    \<and> fc_validation_data c3 = Some (Batches (batch BATCH_SIZE va))
    \<and> bert_tokenizer_from_pretrained lb ''bert-base-cased'' = Inr tok
    \<and> convert_data lb tok (x_train s0) (y_train s0) = Inr tr
    \<and> convert_data lb tok (x_val s0) (y_val s0) = Inr va
    \<and> bert_tokenizer s' = Some tok
    \<and> train_bert s' = Some (batch BATCH_SIZE tr)
    \<and> val_bert s' = Some (batch BATCH_SIZE va)"
proof -
  from assms obtain s0 s1 s2 s3 where
    r0: "run_cells lb [setup_cell, preview_cell, split_cell] (init_state e) = Inr s0"
    and r1: "mlp_cell lb s0 = Inr s1"
    and r2: "bilstm_cell lb s1 = Inr s2"
    and r3: "bert_tokenize_cell lb s2 = Inr s3"
    and r4: "bert_cell lb s3 = Inr s'"
    unfolding notebook_run by blast
  from data_cells_effect [OF r0] obtain f where
    e0: "entropy s0 = e" "displayed s0 = [ShowFrame f]" "val_bert s0 = None"
    by (auto simp: init_state_def)
  from mlp_cell_effect [OF r1] obtain c1 h1 Xt Xv where
    fit1: "keras_fit lb (entropy s0) c1 = Inr (h1, entropy s1)"
    and d1: "displayed s1 = displayed s0 @ [FitProgress c1 h1]"
    and c1: "fc_model c1 = mlp_model (fst (x_train_tf s1))"
      "fc_batch_size c1 = 32" "fc_epochs c1 = 10" "fc_optimizer c1 = Adam 0.001 None"
      "fc_loss c1 = SparseCategoricalCrossentropy False" "fc_metrics c1 = [''accuracy'']"
      "fc_device c1 = None"
      "fc_train c1 = Arrays (x_train_tf s1) (y_train s0)"
      "fc_validation_data c1 = Some (Arrays (x_val_tf s1) (y_val s0))"
    and enc1: "tfidf_fit lb tfidf_args (map snd (x_train s0)) = Inr (tfvect s1)"
      "tfidf_transform lb (tfvect s1) (map snd (x_train s0)) = Inr Xt"
      "select_k_best_fit lb (min TOP_K (fst Xt)) Xt (y_train s0) = Inr (selector s1)"
      "selector_transform (selector s1) Xt = Inr (x_train_tf s1)"
      "tfidf_transform lb (tfvect s1) (map snd (x_val s0)) = Inr Xv"
      "selector_transform (selector s1) Xv = Inr (x_val_tf s1)"
      "fst (x_val_tf s1) = fst (x_train_tf s1)"
      "length (snd (x_train_tf s1)) = length (x_train s0)"
      "length (snd (x_val_tf s1)) = length (x_val s0)"
      "x_train s0 \<noteq> []" "x_val s0 \<noteq> []"
    and f1: "data s1 = data s0" "x_train s1 = x_train s0" "y_train s1 = y_train s0"
      "x_val s1 = x_val s0" "y_val s1 = y_val s0" "val_bert s1 = val_bert s0"
    by blast
  from bilstm_cell_effect [OF r2] obtain c2 h2 where
    fit2: "keras_fit lb (entropy s1) c2 = Inr (h2, entropy s2)"
    and d2: "displayed s2 = displayed s1 @ [FitProgress c2 h2]"
    and c2: "fc_model c2 = bilstm_model (vectorizer s2) (embeddings s2)"
      "fc_batch_size c2 = 32" "fc_epochs c2 = 15" "fc_optimizer c2 = Adam 0.001 None"
      "fc_loss c2 = SparseCategoricalCrossentropy False" "fc_metrics c2 = [''accuracy'']"
      "fc_device c2 = Some ''/cpu:0''"
      "fc_train c2 = Sequences (x_train_vectorized s2) (y_train_vectorized s2)"
      "fc_validation_data c2 = Some (Sequences (x_val_vectorized s2) (y_val_vectorized s2))"
    and enc2: "create_vectorizer_and_embeddings lb (x_train s1) = Inr (vectorizer s2, embeddings s2)"
      "vectorizer_call lb (vectorizer s2) (map snd (x_train s1)) = Inr (x_train_vectorized s2)"
      "vectorizer_call lb (vectorizer s2) (map snd (x_val s1)) = Inr (x_val_vectorized s2)"
      "y_train_vectorized s2 = map snd (y_train s1)"
      "y_val_vectorized s2 = map snd (y_val s1)"
    and f2: "data s2 = data s1" "x_train s2 = x_train s1" "y_train s2 = y_train s1"
      "x_val s2 = x_val s1" "y_val s2 = y_val s1"
      "tfvect s2 = tfvect s1" "selector s2 = selector s1"
      "x_train_tf s2 = x_train_tf s1" "x_val_tf s2 = x_val_tf s1"
      "val_bert s2 = val_bert s1"
    by blast
  note f3 = bert_tokenize_cell_frame [OF r3]
  from bert_cell_effect [OF r4] obtain c3 h3 w tb vb where
    w: "bert_model_from_pretrained lb ''bert-base-cased'' = Inr w"
    and b3: "train_bert s3 = Some tb" "val_bert s3 = Some vb"
    and fit3: "keras_fit lb (entropy s3) c3 = Inr (h3, entropy s')"
    and d3: "displayed s' = displayed s3 @ [FitProgress c3 h3]"
    and c3: "fc_model c3 = TFBertForSequenceClassification ''bert-base-cased'' w"
      "model s' = fc_model c3"
      "fc_batch_size c3 = 16" "fc_epochs c3 = 2"
      "fc_optimizer c3 = Adam 0.00002 (Some 0.00000001)"
      "fc_loss c3 = SparseCategoricalCrossentropy True" "fc_metrics c3 = [''accuracy'']"
      "fc_device c3 = None"
      "fc_train c3 = Batches tb"
      "fc_validation_data c3 = Some (Batches vb)"
    and f4: "data s' = data s3" "x_train s' = x_train s3" "y_train s' = y_train s3"
      "x_val s' = x_val s3" "y_val s' = y_val s3"
      "tfvect s' = tfvect s3" "selector s' = selector s3"
      "x_train_tf s' = x_train_tf s3" "x_val_tf s' = x_val_tf s3"
      "vectorizer s' = vectorizer s3" "embeddings s' = embeddings s3"
      "x_train_vectorized s' = x_train_vectorized s3"
      "x_val_vectorized s' = x_val_vectorized s3"
      "y_train_vectorized s' = y_train_vectorized s3"
      "y_val_vectorized s' = y_val_vectorized s3"
      "bert_tokenizer s' = bert_tokenizer s3" "train_bert s' = train_bert s3"
      "val_bert s' = val_bert s3"
    by blast
  have "val_bert s2 = None"
    by (simp add: f2 f1 e0)
  from bert_tokenize_cell_assigned [OF r3 this b3(2)] obtain tok tr va where
    tk: "bert_tokenizer_from_pretrained lb ''bert-base-cased'' = Inr tok"
      "convert_data lb tok (x_train s2) (y_train s2) = Inr tr"
      "convert_data lb tok (x_val s2) (y_val s2) = Inr va"
      "bert_tokenizer s3 = Some tok"
      "train_bert s3 = Some (batch BATCH_SIZE tr)"
      "val_bert s3 = Some (batch BATCH_SIZE va)"
    by blast
  have tb: "tb = batch BATCH_SIZE tr" and vb: "vb = batch BATCH_SIZE va"
    using b3 tk by simp_all
  have shown: "displayed s' = [ShowFrame f, FitProgress c1 h1, FitProgress c2 h2, FitProgress c3 h3]"
    by (simp add: d3 f3 d2 d1 e0)
  have frame: "data s' = data s0" "x_train s' = x_train s0" "y_train s' = y_train s0"
    "x_val s' = x_val s0" "y_val s' = y_val s0"
    by (simp_all add: f4 f3 f2 f1)
  have tf: "tfvect s' = tfvect s1" "selector s' = selector s1"
    "x_train_tf s' = x_train_tf s1" "x_val_tf s' = x_val_tf s1"
    by (simp_all add: f4 f3 f2)
  have vec: "vectorizer s' = vectorizer s2" "embeddings s' = embeddings s2"
    "x_train_vectorized s' = x_train_vectorized s2" "x_val_vectorized s' = x_val_vectorized s2"
    "y_train_vectorized s' = y_train_vectorized s2" "y_val_vectorized s' = y_val_vectorized s2"
    by (simp_all add: f4 f3)
  have bert: "bert_tokenizer s' = Some tok" "train_bert s' = Some (batch BATCH_SIZE tr)"
    "val_bert s' = Some (batch BATCH_SIZE va)"
    by (simp_all add: f4 tk)
  have fits: "keras_fit lb e c1 = Inr (h1, entropy s1)"
    "keras_fit lb (entropy s1) c2 = Inr (h2, entropy s2)"
    "keras_fit lb (entropy s2) c3 = Inr (h3, entropy s')"
    using fit1 fit2 fit3 by (simp_all add: e0 f3)
  have enc2': "create_vectorizer_and_embeddings lb (x_train s0) = Inr (vectorizer s', embeddings s')"
    "vectorizer_call lb (vectorizer s') (map snd (x_train s0)) = Inr (x_train_vectorized s')"
    "vectorizer_call lb (vectorizer s') (map snd (x_val s0)) = Inr (x_val_vectorized s')"
    "y_train_vectorized s' = map snd (y_train s0)"
    "y_val_vectorized s' = map snd (y_val s0)"
    using enc2 by (simp_all add: vec f1)
  have tk': "convert_data lb tok (x_train s0) (y_train s0) = Inr tr"
    "convert_data lb tok (x_val s0) (y_val s0) = Inr va"
    using tk(2,3) by (simp_all add: f2 f1)
  show ?thesis
    apply (rule exI [of _ s0], rule exI [of _ f])
    apply (rule exI [of _ c1], rule exI [of _ h1], rule exI [of _ c2], rule exI [of _ h2])
    apply (rule exI [of _ c3], rule exI [of _ h3])
    apply (rule exI [of _ "entropy s1"], rule exI [of _ "entropy s2"])
    apply (rule exI [of _ Xt], rule exI [of _ Xv], rule exI [of _ w], rule exI [of _ tok])
    apply (rule exI [of _ tr], rule exI [of _ va])
    using r0 frame enc1(10,11) shown fits c1 enc1(1-9) c2 enc2' w c3 tk(1) tk' bert
    apply (simp add: tf vec tb vb)
    done
qed

subsection \<open>Labels and classifier heads\<close>

lemma mlp_cell_head:
  assumes "mlp_cell lb a = Inr a'"
  shows "output_layer (model a') = Some (Dense 2 Softmax)"
  using assms by (auto simp: mlp_cell_eq mlp_model_def)

lemma bilstm_cell_head:
  assumes "bilstm_cell lb b = Inr b'"
  shows "output_layer (model b') = Some (Dense 2 Softmax)"
  using assms by (auto simp: bilstm_cell_eq bilstm_model_def)

text \<open>
  Claim C1. The task is binary. When every label of the loaded frame is one of the codes
  0, 1 and 2, the split cell leaves only the labels 0 and 1 in \<open>data\<close>, in
  \<open>y_train\<close> and in \<open>y_val\<close>, whose entries label the sentences of \<open>x_train\<close>
  and \<open>x_val\<close> index by index; and the network each of the two Signal 1 cells builds
  and trains ends in a softmax layer of exactly 2 units.
\<close>

theorem binary_task:
  assumes "label ` set (data s) \<subseteq> {0, 1, 2}"
    and "split_cell lb s = Inr s'"
  shows "label ` set (data s') \<subseteq> {0, 1}
    \<and> snd ` set (y_train s') \<subseteq> {0, 1}
    \<and> snd ` set (y_val s') \<subseteq> {0, 1}
    \<and> map fst (x_train s') = map fst (y_train s')
    \<and> map fst (x_val s') = map fst (y_val s')
    \<and> (\<forall>a a'. mlp_cell lb a = Inr a' \<longrightarrow> output_layer (model a') = Some (Dense 2 Softmax))
    \<and> (\<forall>b b'. bilstm_cell lb b = Inr b' \<longrightarrow> output_layer (model b') = Some (Dense 2 Softmax))"
proof -
  note labels = split_cell_labels [OF assms]
  have mlp: "\<forall>a a'. mlp_cell lb a = Inr a' \<longrightarrow> output_layer (model a') = Some (Dense 2 Softmax)"
    using mlp_cell_head by blast
  have bilstm: "\<forall>b b'. bilstm_cell lb b = Inr b' \<longrightarrow> output_layer (model b') = Some (Dense 2 Softmax)"
    using bilstm_cell_head by blast
  from labels mlp bilstm show ?thesis by simp
qed

lemma set_concat_replicate: "set (concat (replicate k ys)) \<subseteq> set ys"
  by (induction k) auto

lemma corpus_preview_labels: "label ` set (data corpus_preview) \<subseteq> {0, 1, 2}"
proof -
  have "label ` set corpus_loaded = set (map label corpus_loaded)"
    by simp
  also have "\<dots> = set (present_labels corpus_rows)"
    by (simp only: corpus_loaded_def label_reset_index rotate_map [symmetric] label_dropna
        set_rotate)
  also have "\<dots> \<subseteq> set (present_labels demo_rows)"
    unfolding corpus_rows_def present_labels_replicate by (rule set_concat_replicate)
  also have "\<dots> \<subseteq> {0, 1, 2}"
    by (simp add: present_labels_demo)
  finally show ?thesis
    by (simp add: corpus_preview_def corpus_setup_def)
qed

lemma corpus_lib_same:
  "read_finphrase corpus_lib data_path = Inr corpus_rows"
  "random_choice corpus_lib = random_choice demo_lib"
  "tfidf_fit corpus_lib = tfidf_fit demo_lib"
  "tfidf_value corpus_lib = tfidf_value demo_lib"
  "f_classif corpus_lib = f_classif demo_lib"
  "create_vectorizer_and_embeddings corpus_lib = create_vectorizer_and_embeddings demo_lib"
  "vectorizer_call corpus_lib = vectorizer_call demo_lib"
  "bert_tokenizer_from_pretrained corpus_lib = bert_tokenizer_from_pretrained demo_lib"
  "convert_data corpus_lib = convert_data demo_lib"
  "bert_model_from_pretrained corpus_lib = bert_model_from_pretrained demo_lib"
  by (simp_all add: corpus_lib_def)

lemma corpus_runs:
  "mlp_encode corpus_lib corpus_split = Inr corpus_mlp_encoded"
  "mlp_cell corpus_lib corpus_split = Inr corpus_mlp"
  "bilstm_cell corpus_lib corpus_mlp = Inr corpus_bilstm"
  "bert_tokenize_cell corpus_lib corpus_bilstm = Inr corpus_tokenized"
  "bert_cell corpus_lib corpus_tokenized = Inr corpus_bert"
  using corpus_mlp_encode_run [OF corpus_lib_same(3,4,5)]
    corpus_mlp_run [OF corpus_lib_same(3,4,5) corpus_lib_fits(1)]
    corpus_bilstm_run [OF corpus_lib_same(6,7) corpus_lib_fits(2)]
    corpus_tokenize_run [OF corpus_lib_same(8,9)]
    corpus_bert_run [OF corpus_lib_same(10) corpus_lib_fits(3)]
  by simp_all

theorem binary_task_witness:
  "label ` set (data corpus_preview) \<subseteq> {0, 1, 2}
   \<and> split_cell corpus_lib corpus_preview = Inr corpus_split
   \<and> label ` set (data corpus_split) \<subseteq> {0, 1}
   \<and> snd ` set (y_train corpus_split) \<subseteq> {0, 1}
   \<and> snd ` set (y_val corpus_split) \<subseteq> {0, 1}
   \<and> length (y_train corpus_split) = 1300 \<and> length (y_val corpus_split) = 2
   \<and> mlp_cell corpus_lib corpus_split = Inr corpus_mlp
   \<and> output_layer (model corpus_mlp) = Some (Dense 2 Softmax)
   \<and> bilstm_cell corpus_lib corpus_mlp = Inr corpus_bilstm
   \<and> output_layer (model corpus_bilstm) = Some (Dense 2 Softmax)"
  using binary_task [OF corpus_preview_labels corpus_split_run [of corpus_lib]]
    corpus_preview_labels corpus_split_run [of corpus_lib] corpus_split_sizes
    corpus_runs(2,3)
  by blast

subsection \<open>Top-k feature selection\<close>

lemma mlp_encode_errors:
  assumes "mlp_encode lb s = Inl err"
  shows "tfidf_fit lb tfidf_args (map snd (x_train s)) = Inl err
      \<or> (err = no_samples \<and> (x_train s = [] \<or> x_val s = []))"
proof (cases "tfidf_fit lb tfidf_args (map snd (x_train s))")
  case (Inl e)
  with assms show ?thesis
    by (simp add: mlp_encode_def)
next
  case (Inr v)
  show ?thesis
  proof (cases "x_train s = [] \<or> x_val s = []")
    case True
    with assms Inr have "err = no_samples"
      by (auto simp: mlp_encode_def tfidf_transform_def split: if_splits)
    with True show ?thesis by simp
  next
    case False
    with mlp_encode_after_fit [OF Inr] assms show ?thesis by auto
  qed
qed

text \<open>
  Claim C10. Feature selection never asks for more features than exist. For any matrix
  with rows, fitting SelectKBest with \<open>k = min(TOP_K, shape[1])\<close> raises nothing and
  selects exactly k = min(20000, number of columns) features; so once the tf-idf vectorizer
  is fitted on a training part and there is a validation part, the selection and both
  transforms succeed, and the encoding can only fail with the exception of the tf-idf fit
  or for want of rows, never in the selection of k features. Afterwards k is the minimum
  of 20000 and the number of tf-idf columns, \<open>x_train_tf\<close> and \<open>x_val_tf\<close> have k
  columns each and one row per sentence, and the input layer of the multilayer perceptron
  declares that dimension.
\<close>

theorem top_k_within_features:
  "(snd X \<noteq> [] \<longrightarrow>
      (\<exists>sel. select_k_best_fit lb (min TOP_K (fst X)) X y = Inr sel
        \<and> sel_k sel = min 20000 (fst X) \<and> sel_k sel \<le> fst X
        \<and> length (support sel) = sel_k sel))
   \<and> (\<forall>v. tfidf_fit lb tfidf_args (map snd (x_train s)) = Inr v \<longrightarrow>
          x_train s \<noteq> [] \<longrightarrow> x_val s \<noteq> [] \<longrightarrow> (\<exists>s1. mlp_encode lb s = Inr s1))
   \<and> (\<forall>err. mlp_encode lb s = Inl err \<longrightarrow>
          tfidf_fit lb tfidf_args (map snd (x_train s)) = Inl err
        \<or> (err = no_samples \<and> (x_train s = [] \<or> x_val s = [])))
   \<and> (\<forall>s1. mlp_encode lb s = Inr s1 \<longrightarrow>
          sel_k (selector s1) = min 20000 (length (tfvect s1))
        \<and> sel_k (selector s1) \<le> length (tfvect s1)
        \<and> fst (x_train_tf s1) = sel_k (selector s1)
        \<and> fst (x_val_tf s1) = fst (x_train_tf s1)
        \<and> length (snd (x_train_tf s1)) = length (x_train s)
        \<and> length (snd (x_val_tf s1)) = length (x_val s)
        \<and> (\<forall>r \<in> set (snd (x_train_tf s1)) \<union> set (snd (x_val_tf s1)).
              length r = fst (x_train_tf s1)))
   \<and> (\<forall>s2. mlp_cell lb s = Inr s2 \<longrightarrow>
          fst (x_val_tf s2) = fst (x_train_tf s2)
        \<and> (\<exists>rest. model s2 = Functional (Input (Some (fst (x_train_tf s2))) # rest)))"
proof -
  have a: "snd X \<noteq> [] \<longrightarrow>
      (\<exists>sel. select_k_best_fit lb (min TOP_K (fst X)) X y = Inr sel
        \<and> sel_k sel = min 20000 (fst X) \<and> sel_k sel \<le> fst X
        \<and> length (support sel) = sel_k sel)"
    using select_top_k_ok [of X lb y] by blast
  have b: "\<forall>v. tfidf_fit lb tfidf_args (map snd (x_train s)) = Inr v \<longrightarrow>
          x_train s \<noteq> [] \<longrightarrow> x_val s \<noteq> [] \<longrightarrow> (\<exists>s1. mlp_encode lb s = Inr s1)"
    using mlp_encode_after_fit by blast
  have e: "\<forall>err. mlp_encode lb s = Inl err \<longrightarrow>
          tfidf_fit lb tfidf_args (map snd (x_train s)) = Inl err
        \<or> (err = no_samples \<and> (x_train s = [] \<or> x_val s = []))"
    using mlp_encode_errors by blast
  have c: "\<forall>s1. mlp_encode lb s = Inr s1 \<longrightarrow>
          sel_k (selector s1) = min 20000 (length (tfvect s1))
        \<and> sel_k (selector s1) \<le> length (tfvect s1)
        \<and> fst (x_train_tf s1) = sel_k (selector s1)
        \<and> fst (x_val_tf s1) = fst (x_train_tf s1)
        \<and> length (snd (x_train_tf s1)) = length (x_train s)
        \<and> length (snd (x_val_tf s1)) = length (x_val s)
        \<and> (\<forall>r \<in> set (snd (x_train_tf s1)) \<union> set (snd (x_val_tf s1)).
              length r = fst (x_train_tf s1))"
    using mlp_encode_shapes by blast
  have d: "fst (x_val_tf s2) = fst (x_train_tf s2)
        \<and> (\<exists>rest. model s2 = Functional (Input (Some (fst (x_train_tf s2))) # rest))"
    if "mlp_cell lb s = Inr s2" for s2
  proof -
    from that obtain s1 h e where s1: "mlp_encode lb s = Inr s1"
      and s2: "s2 = s1\<lparr>model := mlp_model (fst (x_val_tf s1)), entropy := e,
                    displayed := displayed s1 @ [FitProgress (mlp_fit_call s1) h]\<rparr>"
      unfolding mlp_cell_eq by blast
    have "fst (x_val_tf s1) = fst (x_train_tf s1)"
      using mlp_encode_shapes [OF s1] by simp
    then show ?thesis
      by (simp add: s2 mlp_model_def)
  qed
  from a b e c d show ?thesis by blast
qed

theorem top_k_within_features_witness:
  "snd (x_train_tf corpus_mlp) \<noteq> []
   \<and> (\<exists>sel. select_k_best_fit corpus_lib (min TOP_K (fst (x_train_tf corpus_mlp)))
          (x_train_tf corpus_mlp) (y_train corpus_split) = Inr sel
        \<and> sel_k sel = min 20000 (fst (x_train_tf corpus_mlp)))
   \<and> tfidf_fit corpus_lib tfidf_args (map snd (x_train corpus_split))
        = Inr [(''rose'', 1), (''fell'', 1), (''grew'', 1)]
   \<and> x_train corpus_split \<noteq> [] \<and> x_val corpus_split \<noteq> []
   \<and> mlp_encode corpus_lib corpus_split = Inr corpus_mlp_encoded
   \<and> sel_k (selector corpus_mlp_encoded) = min 20000 (length (tfvect corpus_mlp_encoded))
   \<and> fst (x_train_tf corpus_mlp_encoded) = sel_k (selector corpus_mlp_encoded)
   \<and> fst (x_val_tf corpus_mlp_encoded) = fst (x_train_tf corpus_mlp_encoded)
   \<and> length (snd (x_train_tf corpus_mlp_encoded)) = 1300
   \<and> length (snd (x_val_tf corpus_mlp_encoded)) = 2
   \<and> mlp_encode no_tfidf_lib corpus_split = Inl (Exception ''ValueError'')
   \<and> tfidf_fit no_tfidf_lib tfidf_args (map snd (x_train corpus_split))
        = Inl (Exception ''ValueError'')
   \<and> mlp_cell corpus_lib corpus_split = Inr corpus_mlp
   \<and> fst (x_val_tf corpus_mlp) = fst (x_train_tf corpus_mlp)
   \<and> (\<exists>rest. model corpus_mlp = Functional (Input (Some (fst (x_train_tf corpus_mlp))) # rest))"
proof -
  have rows: "snd (x_train_tf corpus_mlp) \<noteq> []"
    using corpus_split_nonempty by (simp add: corpus_mlp_def corpus_mlp_encoded_def)
  have fit: "tfidf_fit corpus_lib tfidf_args (map snd (x_train corpus_split))
     = Inr [(''rose'', 1), (''fell'', 1), (''grew'', 1)]"
    by (simp add: corpus_lib_def demo_lib_def)
  have nofit: "tfidf_fit no_tfidf_lib tfidf_args (map snd (x_train corpus_split))
        = Inl (Exception ''ValueError'')"
    by (simp add: no_tfidf_lib_def)
  then have fails: "mlp_encode no_tfidf_lib corpus_split = Inl (Exception ''ValueError'')"
    by (simp add: mlp_encode_def)
  note t1 = top_k_within_features [of "x_train_tf corpus_mlp" corpus_lib "y_train corpus_split"
      corpus_split]
  note t2 = top_k_within_features [of "x_train_tf corpus_mlp" no_tfidf_lib "y_train corpus_split"
      corpus_split]
  have sizes: "length (snd (x_train_tf corpus_mlp_encoded)) = 1300"
    "length (snd (x_val_tf corpus_mlp_encoded)) = 2"
    using t1 corpus_runs(1) corpus_split_sizes by auto
  from t1 t2 rows fit nofit fails corpus_split_nonempty corpus_runs(1,2) sizes
  show ?thesis by blast
qed

subsection \<open>The training calls of a run\<close>





subsection \<open>The validation split\<close>





subsection \<open>Fine-tuning BERT\<close>

lemma is_bert_models [simp]:
  "\<not> is_bert (mlp_model d)" "\<not> is_bert (bilstm_model v emb)"
  "is_bert (TFBertForSequenceClassification name w)"
  by (simp_all add: mlp_model_def bilstm_model_def)

text \<open>
  Claim C7. BERT is fine-tuned. The BERT cell first calls \<open>from_pretrained\<close> on the
  checkpoint bert-base-cased: when that raises, the cell stops with that exception and
  nothing is trained. When the cell completes, its one training call is on the model that
  holds the weights \<open>from_pretrained\<close> returned, on the batches of \<open>train_bert\<close> with those
  of \<open>val_bert\<close> as validation data, for 2 epochs, and the trained model stays in \<open>model\<close>.
  In a run of the whole notebook from a fresh kernel this is the only training call on a
  BERT model and the last call of the run, and its training batches are the conversion of
  the training part of the split, which is not empty.
\<close>

theorem bert_is_fine_tuned:
  "(\<forall>s err. bert_model_from_pretrained lb ''bert-base-cased'' = Inl err
        \<longrightarrow> bert_cell lb s = Inl err)
   \<and> (\<forall>s s'. bert_cell lb s = Inr s' \<longrightarrow>
        (\<exists>w tr va c h.
            bert_model_from_pretrained lb ''bert-base-cased'' = Inr w
          \<and> train_bert s = Some tr \<and> val_bert s = Some va
          \<and> fc_model c = TFBertForSequenceClassification ''bert-base-cased'' w
          \<and> fc_train c = Batches tr \<and> fc_validation_data c = Some (Batches va)
          \<and> fc_epochs c = 2 \<and> fc_batch_size c = 16
          \<and> fc_optimizer c = Adam 0.00002 (Some 0.00000001)
          \<and> fc_loss c = SparseCategoricalCrossentropy True
          \<and> fc_metrics c = [''accuracy'']
          \<and> keras_fit lb (entropy s) c = Inr (h, entropy s')
          \<and> displayed s' = displayed s @ [FitProgress c h]
          \<and> model s' = TFBertForSequenceClassification ''bert-base-cased'' w))
   \<and> (\<forall>e s'. run_notebook lb e = Inr s' \<longrightarrow>
        (\<exists>s0 w tok tr va c h e2.
            run_cells lb [setup_cell, preview_cell, split_cell] (init_state e) = Inr s0
          \<and> x_train s0 \<noteq> [] \<and> x_val s0 \<noteq> []
          \<and> bert_model_from_pretrained lb ''bert-base-cased'' = Inr w
          \<and> bert_tokenizer_from_pretrained lb ''bert-base-cased'' = Inr tok
          \<and> convert_data lb tok (x_train s0) (y_train s0) = Inr tr
          \<and> convert_data lb tok (x_val s0) (y_val s0) = Inr va
          \<and> filter (\<lambda>(c', h'). is_bert (fc_model c')) (fit_calls (displayed s')) = [(c, h)]
          \<and> last (fit_calls (displayed s')) = (c, h)
          \<and> length (fit_calls (displayed s')) = 3
          \<and> fc_model c = TFBertForSequenceClassification ''bert-base-cased'' w
          \<and> fc_train c = Batches (batch BATCH_SIZE tr)
          \<and> fc_validation_data c = Some (Batches (batch BATCH_SIZE va))
          \<and> fc_epochs c = 2
          \<and> keras_fit lb e2 c = Inr (h, entropy s')
          \<and> model s' = TFBertForSequenceClassification ''bert-base-cased'' w))"
proof (intro conjI allI impI)
  fix s err
  assume "bert_model_from_pretrained lb ''bert-base-cased'' = Inl err"
  then show "bert_cell lb s = Inl err"
    by (simp add: bert_cell_def)
next
  fix s s'
  assume "bert_cell lb s = Inr s'"
  from bert_cell_effect [OF this] obtain c h w tr va where
    facts: "bert_model_from_pretrained lb ''bert-base-cased'' = Inr w"
      "train_bert s = Some tr" "val_bert s = Some va"
      "keras_fit lb (entropy s) c = Inr (h, entropy s')"
      "displayed s' = displayed s @ [FitProgress c h]"
      "fc_model c = TFBertForSequenceClassification ''bert-base-cased'' w"
      "model s' = fc_model c"
      "fc_batch_size c = 16" "fc_epochs c = 2"
      "fc_optimizer c = Adam 0.00002 (Some 0.00000001)"
      "fc_loss c = SparseCategoricalCrossentropy True" "fc_metrics c = [''accuracy'']"
      "fc_train c = Batches tr"
      "fc_validation_data c = Some (Batches va)"
    by (elim exE conjE) (rule that; assumption)
  show "\<exists>w tr va c h.
            bert_model_from_pretrained lb ''bert-base-cased'' = Inr w
          \<and> train_bert s = Some tr \<and> val_bert s = Some va
          \<and> fc_model c = TFBertForSequenceClassification ''bert-base-cased'' w
          \<and> fc_train c = Batches tr \<and> fc_validation_data c = Some (Batches va)
          \<and> fc_epochs c = 2 \<and> fc_batch_size c = 16
          \<and> fc_optimizer c = Adam 0.00002 (Some 0.00000001)
          \<and> fc_loss c = SparseCategoricalCrossentropy True
          \<and> fc_metrics c = [''accuracy'']
          \<and> keras_fit lb (entropy s) c = Inr (h, entropy s')
          \<and> displayed s' = displayed s @ [FitProgress c h]
          \<and> model s' = TFBertForSequenceClassification ''bert-base-cased'' w"
    apply (rule exI [of _ w], rule exI [of _ tr], rule exI [of _ va])
    apply (rule exI [of _ c], rule exI [of _ h])
    using facts apply simp
    done
next
  fix e s'
  assume "run_notebook lb e = Inr s'"
  from notebook_run_effect [OF this] obtain s0 f c1 h1 c2 h2 c3 h3 e2 w tok tr va where
    facts: "run_cells lb [setup_cell, preview_cell, split_cell] (init_state e) = Inr s0"
      "x_train s0 \<noteq> []" "x_val s0 \<noteq> []"
      "displayed s' = [ShowFrame f, FitProgress c1 h1, FitProgress c2 h2, FitProgress c3 h3]"
      "keras_fit lb e2 c3 = Inr (h3, entropy s')"
      "fc_model c1 = mlp_model (fst (x_train_tf s'))"
      "fc_model c2 = bilstm_model (vectorizer s') (embeddings s')"
      "bert_model_from_pretrained lb ''bert-base-cased'' = Inr w"
      "fc_model c3 = TFBertForSequenceClassification ''bert-base-cased'' w"
      "model s' = fc_model c3"
      "fc_epochs c3 = 2"
      "fc_train c3 = Batches (batch BATCH_SIZE tr)"
      "fc_validation_data c3 = Some (Batches (batch BATCH_SIZE va))"
      "bert_tokenizer_from_pretrained lb ''bert-base-cased'' = Inr tok"
      "convert_data lb tok (x_train s0) (y_train s0) = Inr tr"
      "convert_data lb tok (x_val s0) (y_val s0) = Inr va"
    by (elim exE conjE) (rule that; assumption)
  have calls: "fit_calls (displayed s') = [(c1, h1), (c2, h2), (c3, h3)]"
    by (simp add: facts(4))
  have only: "filter (\<lambda>(c', h'). is_bert (fc_model c')) (fit_calls (displayed s')) = [(c3, h3)]"
    by (simp add: calls facts(6,7,9))
  show "\<exists>s0 w tok tr va c h e2.
            run_cells lb [setup_cell, preview_cell, split_cell] (init_state e) = Inr s0
          \<and> x_train s0 \<noteq> [] \<and> x_val s0 \<noteq> []
          \<and> bert_model_from_pretrained lb ''bert-base-cased'' = Inr w
          \<and> bert_tokenizer_from_pretrained lb ''bert-base-cased'' = Inr tok
          \<and> convert_data lb tok (x_train s0) (y_train s0) = Inr tr
          \<and> convert_data lb tok (x_val s0) (y_val s0) = Inr va
          \<and> filter (\<lambda>(c', h'). is_bert (fc_model c')) (fit_calls (displayed s')) = [(c, h)]
          \<and> last (fit_calls (displayed s')) = (c, h)
          \<and> length (fit_calls (displayed s')) = 3
          \<and> fc_model c = TFBertForSequenceClassification ''bert-base-cased'' w
          \<and> fc_train c = Batches (batch BATCH_SIZE tr)
          \<and> fc_validation_data c = Some (Batches (batch BATCH_SIZE va))
          \<and> fc_epochs c = 2
          \<and> keras_fit lb e2 c = Inr (h, entropy s')
          \<and> model s' = TFBertForSequenceClassification ''bert-base-cased'' w"
    apply (rule exI [of _ s0], rule exI [of _ w], rule exI [of _ tok], rule exI [of _ tr])
    apply (rule exI [of _ va], rule exI [of _ c3], rule exI [of _ h3], rule exI [of _ e2])
    using facts(1-3,5,8-) only apply (simp add: calls)
    done
qed

lemma no_checkpoint_fails:
  "bert_model_from_pretrained no_checkpoint_lib ''bert-base-cased'' = Inl (Exception ''OSError'')"
  by (simp add: no_checkpoint_lib_def)

theorem bert_is_fine_tuned_witness:
  "bert_model_from_pretrained no_checkpoint_lib ''bert-base-cased'' = Inl (Exception ''OSError'')
   \<and> bert_cell no_checkpoint_lib corpus_tokenized = Inl (Exception ''OSError'')
   \<and> bert_cell corpus_lib corpus_tokenized = Inr corpus_bert
   \<and> bert_model_from_pretrained corpus_lib ''bert-base-cased'' = Inr [0]
   \<and> train_bert corpus_tokenized = Some corpus_train_bert
   \<and> model corpus_bert = TFBertForSequenceClassification ''bert-base-cased'' [0]
   \<and> (\<exists>c h. fc_model c = TFBertForSequenceClassification ''bert-base-cased'' [0]
         \<and> fc_train c = Batches corpus_train_bert \<and> fc_epochs c = 2
         \<and> displayed corpus_bert = displayed corpus_tokenized @ [FitProgress c h])
   \<and> run_notebook corpus_lib 0 = Inr corpus_bert
   \<and> (\<exists>c h. filter (\<lambda>(c', h'). is_bert (fc_model c')) (fit_calls (displayed corpus_bert))
               = [(c, h)]
         \<and> last (fit_calls (displayed corpus_bert)) = (c, h)
         \<and> fc_model c = TFBertForSequenceClassification ''bert-base-cased'' [0]
         \<and> fc_epochs c = 2)"
proof -
  note ft = bert_is_fine_tuned
  have w: "bert_model_from_pretrained corpus_lib ''bert-base-cased'' = Inr [0]"
    by (simp add: corpus_lib_def demo_lib_def)
  have tr: "train_bert corpus_tokenized = Some corpus_train_bert"
    by (simp add: corpus_tokenized_def)
  from ft [of no_checkpoint_lib] no_checkpoint_fails
  have a: "bert_cell no_checkpoint_lib corpus_tokenized = Inl (Exception ''OSError'')"
    by blast
  from ft [of corpus_lib] corpus_runs(5) obtain w' tr' c h where
    b: "bert_model_from_pretrained corpus_lib ''bert-base-cased'' = Inr w'"
      "train_bert corpus_tokenized = Some tr'"
      "fc_model c = TFBertForSequenceClassification ''bert-base-cased'' w'"
      "fc_train c = Batches tr'" "fc_epochs c = 2"
      "displayed corpus_bert = displayed corpus_tokenized @ [FitProgress c h]"
      "model corpus_bert = TFBertForSequenceClassification ''bert-base-cased'' w'"
    by blast
  from ft [of corpus_lib] corpus_notebook_run obtain w'' c' h' where
    c: "bert_model_from_pretrained corpus_lib ''bert-base-cased'' = Inr w''"
      "filter (\<lambda>(c', h'). is_bert (fc_model c')) (fit_calls (displayed corpus_bert)) = [(c', h')]"
      "last (fit_calls (displayed corpus_bert)) = (c', h')"
      "fc_model c' = TFBertForSequenceClassification ''bert-base-cased'' w''"
      "fc_epochs c' = 2"
    by blast
  have w': "w' = [0]" "w'' = [0]" "tr' = corpus_train_bert"
    using b(1,2) c(1) w tr by simp_all
  show ?thesis
    using no_checkpoint_fails a corpus_runs(5) w tr b(3-) c(2-) corpus_notebook_run
    unfolding w' by blast
qed

subsection \<open>The sections and their experiments\<close>



lemma empty_section:
  assumes "sg \<in> {ExternalFeatures, MultitaskLearning, DatasetSlicing, DataAugmentation, Ensembling}"
  shows "run_cells lb (section_cells sg) s = Inr s \<and> validation_reports lb sg s = []
    \<and> \<not> has_experiment lb sg s"
proof -
  have run: "run_cells lb (section_cells sg) s = Inr s"
    using assms by (auto simp: empty_cell_def)
  then show ?thesis
    by (simp add: has_experiment_def validation_reports_def)
qed

lemma section_report:
  assumes "displayed s' = displayed s @ [FitProgress c h]"
    and "fc_validation_data c = Some x"
    and "run_cells lb (section_cells sg) s = Inr s'"
  shows "validation_reports lb sg s = [(c, h)] \<and> has_experiment lb sg s"
  using assms by (simp add: has_experiment_def validation_reports_def)

lemma mlp_section:
  assumes "run_cells lb (section_cells TfidfMLP) s = Inr s'"
  shows "has_experiment lb TfidfMLP s
    \<and> (\<exists>c h Xt Xv. validation_reports lb TfidfMLP s = [(c, h)]
        \<and> displayed s' = displayed s @ [FitProgress c h]
        \<and> keras_fit lb (entropy s) c = Inr (h, entropy s')
        \<and> tfidf_fit lb tfidf_args (map snd (x_train s)) = Inr (tfvect s')
        \<and> tfidf_transform lb (tfvect s') (map snd (x_train s)) = Inr Xt
        \<and> select_k_best_fit lb (min TOP_K (fst Xt)) Xt (y_train s) = Inr (selector s')
        \<and> selector_transform (selector s') Xt = Inr (x_train_tf s')
        \<and> tfidf_transform lb (tfvect s') (map snd (x_val s)) = Inr Xv
        \<and> selector_transform (selector s') Xv = Inr (x_val_tf s')
        \<and> fc_model c = mlp_model (fst (x_train_tf s')) \<and> model s' = fc_model c
        \<and> fc_optimizer c = Adam 0.001 None
        \<and> fc_loss c = SparseCategoricalCrossentropy False \<and> fc_metrics c = [''accuracy'']
        \<and> fc_batch_size c = 32 \<and> fc_epochs c = 10
        \<and> fc_train c = Arrays (x_train_tf s') (y_train s)
        \<and> fc_validation_data c = Some (Arrays (x_val_tf s') (y_val s)))"
proof -
  from assms have "mlp_cell lb s = Inr s'"
    by (simp add: bind_r_eq_Inr)
  from mlp_cell_effect [OF this] obtain c h Xt Xv where
    facts: "displayed s' = displayed s @ [FitProgress c h]"
      "fc_validation_data c = Some (Arrays (x_val_tf s') (y_val s))"
      "keras_fit lb (entropy s) c = Inr (h, entropy s')"
      "tfidf_fit lb tfidf_args (map snd (x_train s)) = Inr (tfvect s')"
      "tfidf_transform lb (tfvect s') (map snd (x_train s)) = Inr Xt"
      "select_k_best_fit lb (min TOP_K (fst Xt)) Xt (y_train s) = Inr (selector s')"
      "selector_transform (selector s') Xt = Inr (x_train_tf s')"
      "tfidf_transform lb (tfvect s') (map snd (x_val s)) = Inr Xv"
      "selector_transform (selector s') Xv = Inr (x_val_tf s')"
      "fc_model c = mlp_model (fst (x_train_tf s'))" "model s' = fc_model c"
      "fc_optimizer c = Adam 0.001 None"
      "fc_loss c = SparseCategoricalCrossentropy False" "fc_metrics c = [''accuracy'']"
      "fc_batch_size c = 32" "fc_epochs c = 10"
      "fc_train c = Arrays (x_train_tf s') (y_train s)"
    by (elim exE conjE) (rule that; assumption)
  from section_report [OF facts(1,2) assms]
  have rep: "validation_reports lb TfidfMLP s = [(c, h)]" "has_experiment lb TfidfMLP s"
    by simp_all
  show ?thesis
    apply (rule conjI [OF rep(2)])
    apply (rule exI [of _ c], rule exI [of _ h], rule exI [of _ Xt], rule exI [of _ Xv])
    using rep(1) facts apply simp
    done
qed

lemma bilstm_section:
  assumes "run_cells lb (section_cells GloveBiLSTM) s = Inr s'"
  shows "has_experiment lb GloveBiLSTM s
    \<and> (\<exists>c h. validation_reports lb GloveBiLSTM s = [(c, h)]
        \<and> displayed s' = displayed s @ [FitProgress c h]
        \<and> keras_fit lb (entropy s) c = Inr (h, entropy s')
        \<and> create_vectorizer_and_embeddings lb (x_train s) = Inr (vectorizer s', embeddings s')
        \<and> vectorizer_call lb (vectorizer s') (map snd (x_train s)) = Inr (x_train_vectorized s')
        \<and> vectorizer_call lb (vectorizer s') (map snd (x_val s)) = Inr (x_val_vectorized s')
        \<and> fc_model c = bilstm_model (vectorizer s') (embeddings s') \<and> model s' = fc_model c
        \<and> fc_optimizer c = Adam 0.001 None
        \<and> fc_loss c = SparseCategoricalCrossentropy False \<and> fc_metrics c = [''accuracy'']
        \<and> fc_batch_size c = 32 \<and> fc_epochs c = 15
        \<and> fc_train c = Sequences (x_train_vectorized s') (map snd (y_train s))
        \<and> fc_validation_data c = Some (Sequences (x_val_vectorized s') (map snd (y_val s))))"
proof -
  from assms have "bilstm_cell lb s = Inr s'"
    by (simp add: bind_r_eq_Inr)
  from bilstm_cell_effect [OF this] obtain c h where
    facts: "displayed s' = displayed s @ [FitProgress c h]"
      "fc_validation_data c = Some (Sequences (x_val_vectorized s') (y_val_vectorized s'))"
      "keras_fit lb (entropy s) c = Inr (h, entropy s')"
      "create_vectorizer_and_embeddings lb (x_train s) = Inr (vectorizer s', embeddings s')"
      "vectorizer_call lb (vectorizer s') (map snd (x_train s)) = Inr (x_train_vectorized s')"
      "vectorizer_call lb (vectorizer s') (map snd (x_val s)) = Inr (x_val_vectorized s')"
      "fc_model c = bilstm_model (vectorizer s') (embeddings s')" "model s' = fc_model c"
      "fc_optimizer c = Adam 0.001 None"
      "fc_loss c = SparseCategoricalCrossentropy False" "fc_metrics c = [''accuracy'']"
      "fc_batch_size c = 32" "fc_epochs c = 15"
      "fc_train c = Sequences (x_train_vectorized s') (y_train_vectorized s')"
      "y_train_vectorized s' = map snd (y_train s)"
      "y_val_vectorized s' = map snd (y_val s)"
    by (elim exE conjE) (rule that; assumption)
  from section_report [OF facts(1,2) assms]
  have rep: "validation_reports lb GloveBiLSTM s = [(c, h)]" "has_experiment lb GloveBiLSTM s"
    by simp_all
  show ?thesis
    apply (rule conjI [OF rep(2)])
    apply (rule exI [of _ c], rule exI [of _ h])
    using rep(1) facts apply simp
    done
qed

lemma bert_section:
  assumes "run_cells lb (section_cells BertFineTuning) s = Inr s'"
  shows "has_experiment lb BertFineTuning s
    \<and> (\<exists>c h w tr va. validation_reports lb BertFineTuning s = [(c, h)]
        \<and> displayed s' = displayed s @ [FitProgress c h]
        \<and> keras_fit lb (entropy s) c = Inr (h, entropy s')
        \<and> bert_model_from_pretrained lb ''bert-base-cased'' = Inr w
        \<and> fc_model c = TFBertForSequenceClassification ''bert-base-cased'' w
        \<and> model s' = fc_model c
        \<and> fc_optimizer c = Adam 0.00002 (Some 0.00000001)
        \<and> fc_loss c = SparseCategoricalCrossentropy True \<and> fc_metrics c = [''accuracy'']
        \<and> fc_batch_size c = 16 \<and> fc_epochs c = 2
        \<and> train_bert s' = Some tr \<and> val_bert s' = Some va
        \<and> fc_train c = Batches tr \<and> fc_validation_data c = Some (Batches va)
        \<and> (val_bert s = None \<longrightarrow>
             (\<exists>tok tr0 va0. bert_tokenizer_from_pretrained lb ''bert-base-cased'' = Inr tok
                \<and> convert_data lb tok (x_train s) (y_train s) = Inr tr0
                \<and> convert_data lb tok (x_val s) (y_val s) = Inr va0
                \<and> tr = batch BATCH_SIZE tr0 \<and> va = batch BATCH_SIZE va0)))"
proof -
  from assms obtain s1 where r1: "bert_tokenize_cell lb s = Inr s1"
    and r2: "bert_cell lb s1 = Inr s'"
    by (auto simp: bind_r_eq_Inr)
  from bert_tokenize_cell_frame [OF r1] have fr: "entropy s1 = entropy s"
    "displayed s1 = displayed s" "x_train s1 = x_train s"
    by simp_all
  from bert_cell_effect [OF r2] obtain c h w tr va where
    facts: "bert_model_from_pretrained lb ''bert-base-cased'' = Inr w"
      "train_bert s1 = Some tr" "val_bert s1 = Some va"
      "keras_fit lb (entropy s1) c = Inr (h, entropy s')"
      "displayed s' = displayed s1 @ [FitProgress c h]"
      "fc_model c = TFBertForSequenceClassification ''bert-base-cased'' w"
      "model s' = fc_model c"
      "fc_batch_size c = 16" "fc_epochs c = 2"
      "fc_optimizer c = Adam 0.00002 (Some 0.00000001)"
      "fc_loss c = SparseCategoricalCrossentropy True" "fc_metrics c = [''accuracy'']"
      "fc_train c = Batches tr"
      "fc_validation_data c = Some (Batches va)"
      "train_bert s' = train_bert s1" "val_bert s' = val_bert s1"
    by (elim exE conjE) (rule that; assumption)
  have d: "displayed s' = displayed s @ [FitProgress c h]"
    using facts(5) fr(2) by simp
  from section_report [OF d facts(14) assms]
  have rep: "validation_reports lb BertFineTuning s = [(c, h)]" "has_experiment lb BertFineTuning s"
    by simp_all
  have fresh: "\<exists>tok tr0 va0. bert_tokenizer_from_pretrained lb ''bert-base-cased'' = Inr tok
                \<and> convert_data lb tok (x_train s) (y_train s) = Inr tr0
                \<and> convert_data lb tok (x_val s) (y_val s) = Inr va0
                \<and> tr = batch BATCH_SIZE tr0 \<and> va = batch BATCH_SIZE va0"
    if "val_bert s = None"
  proof -
    from bert_tokenize_cell_assigned [OF r1 that facts(3)] obtain tok tr0 va0 where
      t: "bert_tokenizer_from_pretrained lb ''bert-base-cased'' = Inr tok"
        "convert_data lb tok (x_train s) (y_train s) = Inr tr0"
        "convert_data lb tok (x_val s) (y_val s) = Inr va0"
        "train_bert s1 = Some (batch BATCH_SIZE tr0)"
        "va = batch BATCH_SIZE va0"
      by (elim exE conjE) (rule that; assumption)
    from t(4) facts(2) have "tr = batch BATCH_SIZE tr0"
      by simp
    with t show ?thesis by blast
  qed
  show ?thesis
    apply (rule conjI [OF rep(2)])
    apply (rule exI [of _ c], rule exI [of _ h], rule exI [of _ w], rule exI [of _ tr])
    apply (rule exI [of _ va])
    using rep(1) d facts(1,3,6-) fresh fr(1) facts(2,4) apply simp
    done
qed

text \<open>
  Claim C2, as stated, fails: the code cell under "Signal 3: External Features" has no
  source, so running it (here after a run of all the cells before it) leaves the kernel
  as it was and reports no validation metrics.
\<close>

theorem every_signal_has_experiment_counterexample:
  "run_cells corpus_lib (section_cells ExternalFeatures) corpus_bert = Inr corpus_bert
   \<and> validation_reports corpus_lib ExternalFeatures corpus_bert = []
   \<and> \<not> has_experiment corpus_lib ExternalFeatures corpus_bert"
  by (simp add: has_experiment_def validation_reports_def empty_cell_def)

text \<open>
  Claim C2, amended. Three of the eight signals have an experiment. When the cell of the
  tf-idf multilayer perceptron runs through, it has encoded \<open>x_train\<close> and \<open>x_val\<close> with
  the tf-idf vectorizer fitted on \<open>x_train\<close> and the selector fitted on the training
  matrix, configured the perceptron on the selected columns, and added exactly one
  training report with validation metrics: the history \<open>keras_fit\<close> returned for that
  model, compiled with the accuracy metric, trained on the encoded training data and
  validated on the encoded validation data. Likewise the cell of the GloVe bidirectional
  LSTM, with the vectorizer and embeddings made from \<open>x_train\<close>. Likewise the two cells of
  BERT fine-tuning, with the model from the checkpoint bert-base-cased and the batches
  held in \<open>train_bert\<close> and \<open>val_bert\<close>, which, when \<open>val_bert\<close> was unassigned before, are
  the conversions of the split made with the tokenizer of bert-base-cased. The cells of
  the other five signals (external features, multitask learning, dataset slicing, data
  augmentation, ensembling) are empty: they always run through, change nothing and report
  nothing.
\<close>

theorem experiments_for_three_signals:
  "(\<forall>s'. run_cells lb (section_cells TfidfMLP) s = Inr s' \<longrightarrow>
        has_experiment lb TfidfMLP s
      \<and> (\<exists>c h Xt Xv. validation_reports lb TfidfMLP s = [(c, h)]
          \<and> displayed s' = displayed s @ [FitProgress c h]
          \<and> keras_fit lb (entropy s) c = Inr (h, entropy s')
          \<and> tfidf_fit lb tfidf_args (map snd (x_train s)) = Inr (tfvect s')
          \<and> tfidf_transform lb (tfvect s') (map snd (x_train s)) = Inr Xt
          \<and> select_k_best_fit lb (min TOP_K (fst Xt)) Xt (y_train s) = Inr (selector s')
          \<and> selector_transform (selector s') Xt = Inr (x_train_tf s')
          \<and> tfidf_transform lb (tfvect s') (map snd (x_val s)) = Inr Xv
          \<and> selector_transform (selector s') Xv = Inr (x_val_tf s')
          \<and> fc_model c = mlp_model (fst (x_train_tf s')) \<and> model s' = fc_model c
          \<and> fc_optimizer c = Adam 0.001 None
          \<and> fc_loss c = SparseCategoricalCrossentropy False \<and> fc_metrics c = [''accuracy'']
          \<and> fc_batch_size c = 32 \<and> fc_epochs c = 10
          \<and> fc_train c = Arrays (x_train_tf s') (y_train s)
          \<and> fc_validation_data c = Some (Arrays (x_val_tf s') (y_val s))))
   \<and> (\<forall>s'. run_cells lb (section_cells GloveBiLSTM) s = Inr s' \<longrightarrow>
        has_experiment lb GloveBiLSTM s
      \<and> (\<exists>c h. validation_reports lb GloveBiLSTM s = [(c, h)]
          \<and> displayed s' = displayed s @ [FitProgress c h]
          \<and> keras_fit lb (entropy s) c = Inr (h, entropy s')
          \<and> create_vectorizer_and_embeddings lb (x_train s) = Inr (vectorizer s', embeddings s')
          \<and> vectorizer_call lb (vectorizer s') (map snd (x_train s)) = Inr (x_train_vectorized s')
          \<and> vectorizer_call lb (vectorizer s') (map snd (x_val s)) = Inr (x_val_vectorized s')
          \<and> fc_model c = bilstm_model (vectorizer s') (embeddings s') \<and> model s' = fc_model c
          \<and> fc_optimizer c = Adam 0.001 None
          \<and> fc_loss c = SparseCategoricalCrossentropy False \<and> fc_metrics c = [''accuracy'']
          \<and> fc_batch_size c = 32 \<and> fc_epochs c = 15
          \<and> fc_train c = Sequences (x_train_vectorized s') (map snd (y_train s))
          \<and> fc_validation_data c = Some (Sequences (x_val_vectorized s') (map snd (y_val s)))))
   \<and> (\<forall>s'. run_cells lb (section_cells BertFineTuning) s = Inr s' \<longrightarrow>
        has_experiment lb BertFineTuning s
      \<and> (\<exists>c h w tr va. validation_reports lb BertFineTuning s = [(c, h)]
          \<and> displayed s' = displayed s @ [FitProgress c h]
          \<and> keras_fit lb (entropy s) c = Inr (h, entropy s')
          \<and> bert_model_from_pretrained lb ''bert-base-cased'' = Inr w
          \<and> fc_model c = TFBertForSequenceClassification ''bert-base-cased'' w
          \<and> model s' = fc_model c
          \<and> fc_optimizer c = Adam 0.00002 (Some 0.00000001)
          \<and> fc_loss c = SparseCategoricalCrossentropy True \<and> fc_metrics c = [''accuracy'']
          \<and> fc_batch_size c = 16 \<and> fc_epochs c = 2
          \<and> train_bert s' = Some tr \<and> val_bert s' = Some va
          \<and> fc_train c = Batches tr \<and> fc_validation_data c = Some (Batches va)
          \<and> (val_bert s = None \<longrightarrow>
               (\<exists>tok tr0 va0. bert_tokenizer_from_pretrained lb ''bert-base-cased'' = Inr tok
                  \<and> convert_data lb tok (x_train s) (y_train s) = Inr tr0
                  \<and> convert_data lb tok (x_val s) (y_val s) = Inr va0
                  \<and> tr = batch BATCH_SIZE tr0 \<and> va = batch BATCH_SIZE va0))))
   \<and> (\<forall>sg \<in> {ExternalFeatures, MultitaskLearning, DatasetSlicing, DataAugmentation, Ensembling}.
        run_cells lb (section_cells sg) s = Inr s \<and> validation_reports lb sg s = []
      \<and> \<not> has_experiment lb sg s)"
  (is "?mlp \<and> ?bilstm \<and> ?bert \<and> ?others")
proof -
  have a: ?mlp
    by (intro allI impI) (rule mlp_section)
  have b: ?bilstm
    by (intro allI impI) (rule bilstm_section)
  have c: ?bert
    by (intro allI impI) (rule bert_section)
  have d: ?others
    by (rule ballI) (rule empty_section)
  show ?thesis
    by (rule conjI [OF a conjI [OF b conjI [OF c d]]])
qed

theorem experiments_for_three_signals_witness:
  "run_cells corpus_lib (section_cells TfidfMLP) corpus_split = Inr corpus_mlp
   \<and> has_experiment corpus_lib TfidfMLP corpus_split
   \<and> (\<exists>c h. validation_reports corpus_lib TfidfMLP corpus_split = [(c, h)]
         \<and> displayed corpus_mlp = displayed corpus_split @ [FitProgress c h]
         \<and> fc_metrics c = [''accuracy'']
         \<and> fc_train c = Arrays (x_train_tf corpus_mlp) (y_train corpus_split)
         \<and> fc_validation_data c = Some (Arrays (x_val_tf corpus_mlp) (y_val corpus_split)))
   \<and> run_cells corpus_lib (section_cells GloveBiLSTM) corpus_mlp = Inr corpus_bilstm
   \<and> has_experiment corpus_lib GloveBiLSTM corpus_mlp
   \<and> (\<exists>c h. validation_reports corpus_lib GloveBiLSTM corpus_mlp = [(c, h)]
         \<and> displayed corpus_bilstm = displayed corpus_mlp @ [FitProgress c h]
         \<and> fc_metrics c = [''accuracy''])
   \<and> run_cells corpus_lib (section_cells BertFineTuning) corpus_bilstm = Inr corpus_bert
   \<and> val_bert corpus_bilstm = None
   \<and> has_experiment corpus_lib BertFineTuning corpus_bilstm
   \<and> (\<exists>c h tok tr0 va0. validation_reports corpus_lib BertFineTuning corpus_bilstm = [(c, h)]
         \<and> displayed corpus_bert = displayed corpus_bilstm @ [FitProgress c h]
         \<and> fc_metrics c = [''accuracy'']
         \<and> bert_tokenizer_from_pretrained corpus_lib ''bert-base-cased'' = Inr tok
         \<and> convert_data corpus_lib tok (x_train corpus_bilstm) (y_train corpus_bilstm) = Inr tr0
         \<and> convert_data corpus_lib tok (x_val corpus_bilstm) (y_val corpus_bilstm) = Inr va0
         \<and> fc_train c = Batches (batch BATCH_SIZE tr0)
         \<and> fc_validation_data c = Some (Batches (batch BATCH_SIZE va0)))
   \<and> run_cells corpus_lib (section_cells Ensembling) corpus_bert = Inr corpus_bert
   \<and> validation_reports corpus_lib Ensembling corpus_bert = []
   \<and> \<not> has_experiment corpus_lib Ensembling corpus_bert
   \<and> validation_reports corpus_lib DataAugmentation corpus_bert = []"
proof -
  have r1: "run_cells corpus_lib (section_cells TfidfMLP) corpus_split = Inr corpus_mlp"
    by (simp add: corpus_runs(2))
  have r2: "run_cells corpus_lib (section_cells GloveBiLSTM) corpus_mlp = Inr corpus_bilstm"
    by (simp add: corpus_runs(3))
  have r3: "run_cells corpus_lib (section_cells BertFineTuning) corpus_bilstm = Inr corpus_bert"
    by (simp add: corpus_runs(4,5))
  have fresh: "val_bert corpus_bilstm = None"
    by (simp add: corpus_bilstm_frame)
  note split = experiments_for_three_signals [of corpus_lib corpus_split]
  note mlp = experiments_for_three_signals [of corpus_lib corpus_mlp]
  note bilstm = experiments_for_three_signals [of corpus_lib corpus_bilstm]
  note bert = experiments_for_three_signals [of corpus_lib corpus_bert]
  from split r1 have p1: "has_experiment corpus_lib TfidfMLP corpus_split
    \<and> (\<exists>c h. validation_reports corpus_lib TfidfMLP corpus_split = [(c, h)]
         \<and> displayed corpus_mlp = displayed corpus_split @ [FitProgress c h]
         \<and> fc_metrics c = [''accuracy'']
         \<and> fc_train c = Arrays (x_train_tf corpus_mlp) (y_train corpus_split)
         \<and> fc_validation_data c = Some (Arrays (x_val_tf corpus_mlp) (y_val corpus_split)))"
    by blast
  from mlp r2 have p2: "has_experiment corpus_lib GloveBiLSTM corpus_mlp
    \<and> (\<exists>c h. validation_reports corpus_lib GloveBiLSTM corpus_mlp = [(c, h)]
         \<and> displayed corpus_bilstm = displayed corpus_mlp @ [FitProgress c h]
         \<and> fc_metrics c = [''accuracy''])"
    by blast
  from bilstm r3 fresh have p3: "has_experiment corpus_lib BertFineTuning corpus_bilstm
    \<and> (\<exists>c h tok tr0 va0. validation_reports corpus_lib BertFineTuning corpus_bilstm = [(c, h)]
         \<and> displayed corpus_bert = displayed corpus_bilstm @ [FitProgress c h]
         \<and> fc_metrics c = [''accuracy'']
         \<and> bert_tokenizer_from_pretrained corpus_lib ''bert-base-cased'' = Inr tok
         \<and> convert_data corpus_lib tok (x_train corpus_bilstm) (y_train corpus_bilstm) = Inr tr0
         \<and> convert_data corpus_lib tok (x_val corpus_bilstm) (y_val corpus_bilstm) = Inr va0
         \<and> fc_train c = Batches (batch BATCH_SIZE tr0)
         \<and> fc_validation_data c = Some (Batches (batch BATCH_SIZE va0)))"
    by blast
  from bert have p4: "run_cells corpus_lib (section_cells Ensembling) corpus_bert = Inr corpus_bert
   \<and> validation_reports corpus_lib Ensembling corpus_bert = []
   \<and> \<not> has_experiment corpus_lib Ensembling corpus_bert
   \<and> validation_reports corpus_lib DataAugmentation corpus_bert = []"
    by blast
  from r1 r2 r3 fresh p1 p2 p3 p4 show ?thesis
    by blast
qed

subsection \<open>Failures\<close>


























end
